theory Spec2Isabelle
  imports Main "HOL-Library.Word" "HOL-Library.Multiset"
begin

section \<open>Compute based rendering: the model of the source\<close>

text \<open>
  The theory embeds \<^verbatim>\<open>src/xrt/compositor/render/render_compute.c\<close>: the dispatch
  geometry, the descriptor updates of the layer and the shared shape, the initialisation and
  finalisation of the context and the four passes. Each of these C functions becomes a HOL
  function of the same name. (\<^verbatim>\<open>render_compute_begin\<close>, \<^verbatim>\<open>render_compute_end\<close> and
  the unused \<^verbatim>\<open>update_compute_descriptor_set_target\<close> play no part in the properties
  proved here and are left out.) Unsigned 32-bit values are \<open>32 word\<close>, so
  \<open>+\<close>, \<open>*\<close> and \<open>-\<close> wrap as in C. Arrays are lists whose length is the extent of the C
  array; an access outside the extent (undefined behaviour in C) is the error
  \<open>OutOfBounds\<close>. A local array starts with indeterminate elements (\<open>None\<close>); reading such
  an element is the error \<open>Indeterminate\<close>. A failing \<^verbatim>\<open>assert\<close> is the error
  \<open>AssertFailed\<close>.

  Record fields carry a short prefix of their struct (\<open>vp_w\<close> is
  \<^verbatim>\<open>render_viewport_data.w\<close>, \<open>r_compute_src_binding\<close> is
  \<^verbatim>\<open>render_resources.compute.src_binding\<close>), since a field name is a global constant.
\<close>

subsection \<open>Scalars, handles and errors\<close>

type_synonym u32 = "32 word"
type_synonym u64 = "64 word"

text \<open>A C \<^verbatim>\<open>float\<close> is only ever copied by this file: it is kept as its 32-bit pattern.\<close>

type_synonym float = "32 word"

text \<open>Vulkan handles and mapped pointers are opaque numbers; zero is the null handle.\<close>

type_synonym handle = nat

definition VK_NULL_HANDLE :: handle where
  "VK_NULL_HANDLE = 0"

datatype error = AssertFailed | OutOfBounds | Indeterminate

definition bind_err :: "'e + 'a \<Rightarrow> ('a \<Rightarrow> 'e + 'b) \<Rightarrow> 'e + 'b" where
  "bind_err m f = (case m of Inl e \<Rightarrow> Inl e | Inr a \<Rightarrow> f a)"

subsection \<open>Arrays and counted loops\<close>

definition arr_get :: "'a list \<Rightarrow> u32 \<Rightarrow> error + 'a" where
  "arr_get xs i = (if unat i < length xs then Inr (xs ! unat i) else Inl OutOfBounds)"

definition arr_set :: "'a list \<Rightarrow> u32 \<Rightarrow> 'a \<Rightarrow> error + 'a list" where
  "arr_set xs i v = (if unat i < length xs then Inr (xs[unat i := v]) else Inl OutOfBounds)"

text \<open>Reading an element of an array that may hold indeterminate elements.\<close>

definition arr_get_init :: "'a option list \<Rightarrow> u32 \<Rightarrow> error + 'a" where
  "arr_get_init xs i =
     (if unat i < length xs
      then (case xs ! unat i of None \<Rightarrow> Inl Indeterminate | Some v \<Rightarrow> Inr v)
      else Inl OutOfBounds)"

text \<open>
  \<^verbatim>\<open>for (uint32_t i = i0; i < n; ++i) body\<close>, with the loop's variables as the state
  \<open>s\<close>. A body that ends in \<open>Inl\<close> leaves the loop (and the function) at once.
\<close>

function for_loop :: "u32 \<Rightarrow> (u32 \<Rightarrow> 's \<Rightarrow> 'e + 's) \<Rightarrow> u32 \<Rightarrow> 's \<Rightarrow> 'e + 's" where
  "for_loop n body i s =
     (if i < n
      then (case body i s of Inl e \<Rightarrow> Inl e | Inr s' \<Rightarrow> for_loop n body (i + 1) s')
      else Inr s)"
  by pat_completeness auto
termination
proof (relation "measure (\<lambda>(n, body, i, s). unat n - unat i)")
  show "wf (measure (\<lambda>(n :: u32, body :: u32 \<Rightarrow> 's \<Rightarrow> 'e + 's, i :: u32, s :: 's).
              unat n - unat i))"
    by simp
next
  fix n :: u32 and body :: "u32 \<Rightarrow> 's \<Rightarrow> 'e + 's" and i :: u32 and s x2 :: 's
  assume lt: "i < n"
  then have "unat (i + 1) = Suc (unat i)"
    by unat_arith
  with lt show "((n, body, i + 1, x2), (n, body, i, s))
                  \<in> measure (\<lambda>(n, body, i, s). unat n - unat i)"
    by (simp add: word_less_nat_alt)
qed

declare for_loop.simps [simp del]

subsection \<open>Dispatch geometry\<close>

definition uint_divide_and_round_up :: "u32 \<Rightarrow> u32 \<Rightarrow> u32" where
  "uint_divide_and_round_up a b = (a + (b - 1)) div b"

record render_viewport_data =
  vp_x :: u32
  vp_y :: u32
  vp_w :: u32
  vp_h :: u32

definition calc_dispatch_dims_1_view :: "render_viewport_data \<Rightarrow> u32 \<times> u32" where
  "calc_dispatch_dims_1_view views =
     (let w = uint_divide_and_round_up (vp_w views) 8;
          h = uint_divide_and_round_up (vp_h views) 8
      in (w, h))"

definition IMAX :: "u32 \<Rightarrow> u32 \<Rightarrow> u32" where
  "IMAX a b = (if a > b then a else b)"

definition calc_dispatch_dims_views ::
  "render_viewport_data list \<Rightarrow> u32 \<Rightarrow> error + (u32 \<times> u32)" where
  "calc_dispatch_dims_views views view_count =
     bind_err
       (for_loop view_count
          (\<lambda>i (w, h). bind_err (arr_get views i)
             (\<lambda>v. Inr (IMAX w (vp_w v), IMAX h (vp_h v))))
          0 (0, 0))
       (\<lambda>(w, h). Inr (uint_divide_and_round_up w 8, uint_divide_and_round_up h 8))"

subsection \<open>Vulkan values used by the file\<close>


datatype VkImageLayout =
    VK_IMAGE_LAYOUT_UNDEFINED
  | VK_IMAGE_LAYOUT_GENERAL
  | VK_IMAGE_LAYOUT_SHADER_READ_ONLY_OPTIMAL
  | VK_IMAGE_LAYOUT_PRESENT_SRC_KHR

datatype VkDescriptorType =
    VK_DESCRIPTOR_TYPE_COMBINED_IMAGE_SAMPLER
  | VK_DESCRIPTOR_TYPE_STORAGE_IMAGE
  | VK_DESCRIPTOR_TYPE_UNIFORM_BUFFER

datatype VkAccessFlagBits = VK_ACCESS_SHADER_WRITE_BIT | VK_ACCESS_MEMORY_READ_BIT

datatype VkPipelineStageFlagBits =
    VK_PIPELINE_STAGE_TOP_OF_PIPE_BIT
  | VK_PIPELINE_STAGE_COMPUTE_SHADER_BIT

datatype VkPipelineBindPoint = VK_PIPELINE_BIND_POINT_COMPUTE

datatype VkImageAspectFlagBits = VK_IMAGE_ASPECT_COLOR_BIT

text \<open>A flag mask is the set of its bits: the mask \<^verbatim>\<open>0\<close> is the empty set.\<close>

definition VK_REMAINING_MIP_LEVELS :: u32 where
  "VK_REMAINING_MIP_LEVELS = - 1"

definition VK_REMAINING_ARRAY_LAYERS :: u32 where
  "VK_REMAINING_ARRAY_LAYERS = - 1"

definition VK_QUEUE_FAMILY_IGNORED :: u32 where
  "VK_QUEUE_FAMILY_IGNORED = - 1"

definition VK_WHOLE_SIZE :: u64 where
  "VK_WHOLE_SIZE = - 1"

record VkImageSubresourceRange =
  isr_aspectMask :: "VkImageAspectFlagBits set"
  isr_baseMipLevel :: u32
  isr_levelCount :: u32
  isr_baseArrayLayer :: u32
  isr_layerCount :: u32

record VkImageMemoryBarrier =
  imb_srcAccessMask :: "VkAccessFlagBits set"
  imb_dstAccessMask :: "VkAccessFlagBits set"
  imb_oldLayout :: VkImageLayout
  imb_newLayout :: VkImageLayout
  imb_srcQueueFamilyIndex :: u32
  imb_dstQueueFamilyIndex :: u32
  imb_image :: handle
  imb_subresourceRange :: VkImageSubresourceRange

record VkDescriptorImageInfo =
  dii_sampler :: handle
  dii_imageView :: handle
  dii_imageLayout :: VkImageLayout

record VkDescriptorBufferInfo =
  dbi_buffer :: handle
  dbi_offset :: u64
  dbi_range :: u64

text \<open>
  \<open>wds_pImageInfo\<close> and \<open>wds_pBufferInfo\<close> are the arrays the pointers refer to (the
  empty list for a null pointer); fields the initialiser leaves out are zero.
\<close>

record VkWriteDescriptorSet =
  wds_dstSet :: handle
  wds_dstBinding :: u32
  wds_dstArrayElement :: u32
  wds_descriptorCount :: u32
  wds_descriptorType :: VkDescriptorType
  wds_pImageInfo :: "VkDescriptorImageInfo option list"
  wds_pBufferInfo :: "VkDescriptorBufferInfo option list"

subsection \<open>Data of the compositor\<close>

record xrt_normalized_rect =
  nr_x :: float
  nr_y :: float
  nr_w :: float
  nr_h :: float

datatype xrt_matrix_4x4 = Matrix4x4 "float list"

text \<open>
  Modelled from the spec: \<^verbatim>\<open>math_matrix_4x4_identity\<close> is declared in
  \<^verbatim>\<open>math/m_api.h\<close> and its body is not part of the source at hand; the spec calls its
  result the identity 4x4 transform. \<open>0x3F800000\<close> is the bit pattern of \<^verbatim>\<open>1.0f\<close>.
\<close>

definition math_matrix_4x4_identity :: xrt_matrix_4x4 where
  "math_matrix_4x4_identity =
     Matrix4x4 [0x3F800000, 0, 0, 0,
                0, 0x3F800000, 0, 0,
                0, 0, 0x3F800000, 0,
                0, 0, 0, 0x3F800000]"

text \<open>\<^verbatim>\<open>struct render_compute_distortion_ubo_data\<close>: one array per field, one slot per view.\<close>

record render_compute_distortion_ubo_data =
  ubo_views :: "render_viewport_data list"
  ubo_pre_transforms :: "xrt_normalized_rect list"
  ubo_transforms :: "xrt_matrix_4x4 list"
  ubo_post_transforms :: "xrt_normalized_rect list"

text \<open>
  The fields of \<^verbatim>\<open>struct render_resources\<close> that the file reads. The struct itself is
  never written here: only the driver state behind its handles and mapped pointers is.
\<close>

record render_resources =
  r_view_count :: u32
  r_cmd :: handle
  r_compute_descriptor_pool :: handle
  r_compute_src_binding :: u32
  r_compute_distortion_binding :: u32
  r_compute_target_binding :: u32
  r_compute_ubo_binding :: u32
  r_compute_layer_descriptor_set_layout :: handle
  r_compute_layer_timewarp_pipeline :: handle
  r_compute_layer_non_timewarp_pipeline :: handle
  r_compute_layer_pipeline_layout :: handle
  r_compute_distortion_descriptor_set_layout :: handle
  r_compute_distortion_ubo_mapped :: handle
  r_compute_distortion_ubo_buffer :: handle
  r_compute_distortion_pipeline :: handle
  r_compute_distortion_timewarp_pipeline :: handle
  r_compute_distortion_pipeline_layout :: handle
  r_compute_clear_ubo_mapped :: handle
  r_compute_clear_ubo_buffer :: handle
  r_compute_clear_pipeline :: handle
  r_distortion_uv_to_tanangle :: "xrt_normalized_rect list"
  r_distortion_image_views :: "handle list"
  r_samplers_clamp_to_edge :: handle
  r_samplers_mock :: handle
  r_mock_color_image_view :: handle

text \<open>
  \<^verbatim>\<open>struct render_compute\<close>. The pointer \<^verbatim>\<open>r\<close> is \<open>None\<close> when null and otherwise
  holds the resources it points to.
\<close>

record render_compute =
  rc_r :: "render_resources option"
  rc_layer_descriptor_sets :: "handle list"
  rc_shared_descriptor_set :: handle

text \<open>
  The compile-time constants come from headers that are not part of the source at hand, so
  they are parameters of the model.
\<close>

record limits =
  XRT_MAX_VIEWS :: u32
  RENDER_MAX_IMAGES_SIZE :: u32
  RENDER_MAX_LAYER_RUNS_COUNT :: u32

subsection \<open>The driver state behind \<^verbatim>\<open>struct vk_bundle\<close>\<close>

datatype descriptor =
    ImageDescriptor VkDescriptorType VkDescriptorImageInfo
  | BufferDescriptor VkDescriptorType VkDescriptorBufferInfo

text \<open>A descriptor slot: the set, the binding number and the array element.\<close>

type_synonym slot = "handle \<times> u32 \<times> nat"

text \<open>Every call made through the bundle is recorded, in the order of the calls.\<close>

datatype vk_call =
    Call_vk_cmd_image_barrier_gpu_locked handle handle "VkAccessFlagBits set"
      "VkAccessFlagBits set" VkImageLayout VkImageLayout VkImageSubresourceRange
  | Call_vkCmdBindPipeline handle VkPipelineBindPoint handle
  | Call_vkCmdBindDescriptorSets handle VkPipelineBindPoint handle u32 "handle list" "u32 list"
  | Call_vkCmdDispatch handle u32 u32 u32
  | Call_vkCmdPipelineBarrier handle "VkPipelineStageFlagBits set"
      "VkPipelineStageFlagBits set" u32 u32 u32 "VkImageMemoryBarrier list"
  | Call_vkUpdateDescriptorSets "VkWriteDescriptorSet list"
  | Call_vkResetDescriptorPool handle u32

record vk_bundle =
  vk_calls :: "vk_call list"
  vk_descriptors :: "slot \<rightharpoonup> descriptor"
  vk_mapped :: "handle \<Rightarrow> render_compute_distortion_ubo_data"
  vk_pool_max_sets :: nat
  vk_pool_sets :: "handle list"

definition record_call :: "vk_bundle \<Rightarrow> vk_call \<Rightarrow> vk_bundle" where
  "record_call vk c = vk\<lparr>vk_calls := vk_calls vk @ [c]\<rparr>"

subsection \<open>Calls into the driver\<close>

text \<open>
  The Vulkan entry points are not code of the repository. A command recorded into a command
  buffer only extends the record of calls.
\<close>

definition vkCmdBindPipeline ::
  "vk_bundle \<Rightarrow> handle \<Rightarrow> VkPipelineBindPoint \<Rightarrow> handle \<Rightarrow> vk_bundle" where
  "vkCmdBindPipeline vk cmd pipelineBindPoint pipeline =
     record_call vk (Call_vkCmdBindPipeline cmd pipelineBindPoint pipeline)"

definition vkCmdBindDescriptorSets ::
  "vk_bundle \<Rightarrow> handle \<Rightarrow> VkPipelineBindPoint \<Rightarrow> handle \<Rightarrow> u32 \<Rightarrow> handle list \<Rightarrow> u32 list
     \<Rightarrow> vk_bundle" where
  "vkCmdBindDescriptorSets vk cmd pipelineBindPoint layout firstSet pDescriptorSets
       pDynamicOffsets =
     record_call vk (Call_vkCmdBindDescriptorSets cmd pipelineBindPoint layout firstSet
       pDescriptorSets pDynamicOffsets)"

definition vkCmdDispatch :: "vk_bundle \<Rightarrow> handle \<Rightarrow> u32 \<Rightarrow> u32 \<Rightarrow> u32 \<Rightarrow> vk_bundle" where
  "vkCmdDispatch vk cmd groupCountX groupCountY groupCountZ =
     record_call vk (Call_vkCmdDispatch cmd groupCountX groupCountY groupCountZ)"

definition vkCmdPipelineBarrier ::
  "vk_bundle \<Rightarrow> handle \<Rightarrow> VkPipelineStageFlagBits set \<Rightarrow> VkPipelineStageFlagBits set \<Rightarrow> u32
     \<Rightarrow> u32 \<Rightarrow> u32 \<Rightarrow> VkImageMemoryBarrier list \<Rightarrow> vk_bundle" where
  "vkCmdPipelineBarrier vk cmd srcStageMask dstStageMask dependencyFlags memoryBarrierCount
       bufferMemoryBarrierCount pImageMemoryBarriers =
     record_call vk (Call_vkCmdPipelineBarrier cmd srcStageMask dstStageMask dependencyFlags
       memoryBarrierCount bufferMemoryBarrierCount pImageMemoryBarriers)"

text \<open>
  Modelled from the spec: \<^verbatim>\<open>vk_cmd_image_barrier_gpu_locked\<close> is a helper of the
  repository (\<^verbatim>\<open>vk/vk_mini_helpers.h\<close>) whose body is not part of the source at hand.
  The spec calls what the passes insert with it the pre-barrier, from the undefined to the
  general layout, gating on shader-write access. The model records the call with the
  arguments the caller passes.
\<close>

definition vk_cmd_image_barrier_gpu_locked ::
  "vk_bundle \<Rightarrow> handle \<Rightarrow> handle \<Rightarrow> VkAccessFlagBits set \<Rightarrow> VkAccessFlagBits set
     \<Rightarrow> VkImageLayout \<Rightarrow> VkImageLayout \<Rightarrow> VkImageSubresourceRange \<Rightarrow> vk_bundle" where
  "vk_cmd_image_barrier_gpu_locked vk cmd img src_access_mask dst_access_mask old_layout
       new_layout subresource_range =
     record_call vk (Call_vk_cmd_image_barrier_gpu_locked cmd img src_access_mask
       dst_access_mask old_layout new_layout subresource_range)"

text \<open>
  \<^verbatim>\<open>vkUpdateDescriptorSets\<close> reads the first \<open>descriptorCount\<close> elements of the info
  array of each write and stores them in consecutive array elements of the binding, the
  writes in the order of the array.
\<close>

definition read_infos :: "'a option list \<Rightarrow> u32 \<Rightarrow> error + 'a list" where
  "read_infos xs n =
     (if length xs < unat n then Inl OutOfBounds
      else if None \<in> set (take (unat n) xs) then Inl Indeterminate
      else Inr (map the (take (unat n) xs)))"

definition write_entries :: "VkWriteDescriptorSet \<Rightarrow> error + descriptor list" where
  "write_entries wr =
     (if wds_descriptorType wr = VK_DESCRIPTOR_TYPE_UNIFORM_BUFFER
      then bind_err (read_infos (wds_pBufferInfo wr) (wds_descriptorCount wr))
             (\<lambda>infos. Inr (map (BufferDescriptor (wds_descriptorType wr)) infos))
      else bind_err (read_infos (wds_pImageInfo wr) (wds_descriptorCount wr))
             (\<lambda>infos. Inr (map (ImageDescriptor (wds_descriptorType wr)) infos)))"

fun store_entries ::
  "(slot \<rightharpoonup> descriptor) \<Rightarrow> handle \<Rightarrow> u32 \<Rightarrow> nat \<Rightarrow> descriptor list \<Rightarrow> (slot \<rightharpoonup> descriptor)" where
  "store_entries m dstSet dstBinding k [] = m"
| "store_entries m dstSet dstBinding k (d # ds) =
     store_entries (m((dstSet, dstBinding, k) \<mapsto> d)) dstSet dstBinding (Suc k) ds"

fun write_descriptors ::
  "(slot \<rightharpoonup> descriptor) \<Rightarrow> VkWriteDescriptorSet list \<Rightarrow> error + (slot \<rightharpoonup> descriptor)" where
  "write_descriptors m [] = Inr m"
| "write_descriptors m (wr # wrs) =
     bind_err (write_entries wr)
       (\<lambda>ds. write_descriptors
                (store_entries m (wds_dstSet wr) (wds_dstBinding wr)
                   (unat (wds_dstArrayElement wr)) ds) wrs)"

definition vkUpdateDescriptorSets ::
  "vk_bundle \<Rightarrow> VkWriteDescriptorSet list \<Rightarrow> error + vk_bundle" where
  "vkUpdateDescriptorSets vk pDescriptorWrites =
     bind_err (write_descriptors (vk_descriptors vk) pDescriptorWrites)
       (\<lambda>m. Inr (record_call (vk\<lparr>vk_descriptors := m\<rparr>)
                    (Call_vkUpdateDescriptorSets pDescriptorWrites)))"




subsection \<open>Vulkan helpers of the file\<close>

definition update_compute_layer_descriptor_set ::
  "limits \<Rightarrow> vk_bundle \<Rightarrow> u32 \<Rightarrow> handle list \<Rightarrow> handle list \<Rightarrow> u32 \<Rightarrow> u32 \<Rightarrow> handle \<Rightarrow> u32
     \<Rightarrow> handle \<Rightarrow> u64 \<Rightarrow> handle \<Rightarrow> error + vk_bundle" where
  "update_compute_layer_descriptor_set L vk src_binding src_samplers src_image_views
       image_count target_binding target_image_view ubo_binding ubo_buffer ubo_size
       descriptor_set =
     bind_err
       (for_loop image_count
          (\<lambda>i src_image_info.
             bind_err (arr_get src_samplers i) (\<lambda>sampler.
             bind_err (arr_get src_image_views i) (\<lambda>image_view.
             arr_set src_image_info i
               (Some \<lparr>dii_sampler = sampler, dii_imageView = image_view,
                      dii_imageLayout = VK_IMAGE_LAYOUT_SHADER_READ_ONLY_OPTIMAL\<rparr>))))
          0 (replicate (unat (RENDER_MAX_IMAGES_SIZE L)) None))
       (\<lambda>src_image_info.
          let target_image_info =
                \<lparr>dii_sampler = VK_NULL_HANDLE, dii_imageView = target_image_view,
                 dii_imageLayout = VK_IMAGE_LAYOUT_GENERAL\<rparr>;
              buffer_info =
                \<lparr>dbi_buffer = ubo_buffer, dbi_offset = 0, dbi_range = ubo_size\<rparr>;
              write_descriptor_sets =
                [\<lparr>wds_dstSet = descriptor_set, wds_dstBinding = src_binding,
                  wds_dstArrayElement = 0, wds_descriptorCount = image_count,
                  wds_descriptorType = VK_DESCRIPTOR_TYPE_COMBINED_IMAGE_SAMPLER,
                  wds_pImageInfo = src_image_info, wds_pBufferInfo = []\<rparr>,
                 \<lparr>wds_dstSet = descriptor_set, wds_dstBinding = target_binding,
                  wds_dstArrayElement = 0, wds_descriptorCount = 1,
                  wds_descriptorType = VK_DESCRIPTOR_TYPE_STORAGE_IMAGE,
                  wds_pImageInfo = [Some target_image_info], wds_pBufferInfo = []\<rparr>,
                 \<lparr>wds_dstSet = descriptor_set, wds_dstBinding = ubo_binding,
                  wds_dstArrayElement = 0, wds_descriptorCount = 1,
                  wds_descriptorType = VK_DESCRIPTOR_TYPE_UNIFORM_BUFFER,
                  wds_pImageInfo = [], wds_pBufferInfo = [Some buffer_info]\<rparr>]
          in vkUpdateDescriptorSets vk write_descriptor_sets)"

text \<open>
  The sampler and image-view arrays of the shared shape may be local arrays of the caller,
  so their elements may be indeterminate.
\<close>

definition update_compute_shared_descriptor_set ::
  "limits \<Rightarrow> vk_bundle \<Rightarrow> u32 \<Rightarrow> handle option list \<Rightarrow> handle option list \<Rightarrow> u32
     \<Rightarrow> handle option list \<Rightarrow> handle option list \<Rightarrow> u32 \<Rightarrow> handle \<Rightarrow> u32 \<Rightarrow> handle \<Rightarrow> u64
     \<Rightarrow> handle \<Rightarrow> u32 \<Rightarrow> error + vk_bundle" where
  "update_compute_shared_descriptor_set L vk src_binding src_samplers src_image_views
       distortion_binding distortion_samplers distortion_image_views target_binding
       target_image_view ubo_binding ubo_buffer ubo_size descriptor_set view_count =
     bind_err
       (for_loop view_count
          (\<lambda>i src_image_info.
             bind_err (arr_get_init src_samplers i) (\<lambda>sampler.
             bind_err (arr_get_init src_image_views i) (\<lambda>image_view.
             arr_set src_image_info i
               (Some \<lparr>dii_sampler = sampler, dii_imageView = image_view,
                      dii_imageLayout = VK_IMAGE_LAYOUT_SHADER_READ_ONLY_OPTIMAL\<rparr>))))
          0 (replicate (unat (XRT_MAX_VIEWS L)) None))
       (\<lambda>src_image_info.
     bind_err
       (for_loop (3 * view_count)
          (\<lambda>i distortion_image_info.
             bind_err (arr_get_init distortion_samplers i) (\<lambda>sampler.
             bind_err (arr_get_init distortion_image_views i) (\<lambda>image_view.
             arr_set distortion_image_info i
               (Some \<lparr>dii_sampler = sampler, dii_imageView = image_view,
                      dii_imageLayout = VK_IMAGE_LAYOUT_SHADER_READ_ONLY_OPTIMAL\<rparr>))))
          0 (replicate (3 * unat (XRT_MAX_VIEWS L)) None))
       (\<lambda>distortion_image_info.
          let target_image_info =
                \<lparr>dii_sampler = VK_NULL_HANDLE, dii_imageView = target_image_view,
                 dii_imageLayout = VK_IMAGE_LAYOUT_GENERAL\<rparr>;
              buffer_info =
                \<lparr>dbi_buffer = ubo_buffer, dbi_offset = 0, dbi_range = ubo_size\<rparr>;
              write_descriptor_sets =
                [\<lparr>wds_dstSet = descriptor_set, wds_dstBinding = src_binding,
                  wds_dstArrayElement = 0, wds_descriptorCount = view_count,
                  wds_descriptorType = VK_DESCRIPTOR_TYPE_COMBINED_IMAGE_SAMPLER,
                  wds_pImageInfo = src_image_info, wds_pBufferInfo = []\<rparr>,
                 \<lparr>wds_dstSet = descriptor_set, wds_dstBinding = distortion_binding,
                  wds_dstArrayElement = 0, wds_descriptorCount = 3 * view_count,
                  wds_descriptorType = VK_DESCRIPTOR_TYPE_COMBINED_IMAGE_SAMPLER,
                  wds_pImageInfo = distortion_image_info, wds_pBufferInfo = []\<rparr>,
                 \<lparr>wds_dstSet = descriptor_set, wds_dstBinding = target_binding,
                  wds_dstArrayElement = 0, wds_descriptorCount = 1,
                  wds_descriptorType = VK_DESCRIPTOR_TYPE_STORAGE_IMAGE,
                  wds_pImageInfo = [Some target_image_info], wds_pBufferInfo = []\<rparr>,
                 \<lparr>wds_dstSet = descriptor_set, wds_dstBinding = ubo_binding,
                  wds_dstArrayElement = 0, wds_descriptorCount = 1,
                  wds_descriptorType = VK_DESCRIPTOR_TYPE_UNIFORM_BUFFER,
                  wds_pImageInfo = [], wds_pBufferInfo = [Some buffer_info]\<rparr>]
          in vkUpdateDescriptorSets vk write_descriptor_sets))"

subsection \<open>Exported functions: lifecycle\<close>



subsection \<open>Exported functions: the passes\<close>

text \<open>\<^verbatim>\<open>data->views[i] = v\<close> and its siblings, on the mapped uniform data.\<close>

definition set_views ::
  "render_compute_distortion_ubo_data \<Rightarrow> u32 \<Rightarrow> render_viewport_data
     \<Rightarrow> error + render_compute_distortion_ubo_data" where
  "set_views data i v =
     bind_err (arr_set (ubo_views data) i v) (\<lambda>xs. Inr (data\<lparr>ubo_views := xs\<rparr>))"

definition set_pre_transforms ::
  "render_compute_distortion_ubo_data \<Rightarrow> u32 \<Rightarrow> xrt_normalized_rect
     \<Rightarrow> error + render_compute_distortion_ubo_data" where
  "set_pre_transforms data i v =
     bind_err (arr_set (ubo_pre_transforms data) i v)
       (\<lambda>xs. Inr (data\<lparr>ubo_pre_transforms := xs\<rparr>))"

definition set_transforms ::
  "render_compute_distortion_ubo_data \<Rightarrow> u32 \<Rightarrow> xrt_matrix_4x4
     \<Rightarrow> error + render_compute_distortion_ubo_data" where
  "set_transforms data i v =
     bind_err (arr_set (ubo_transforms data) i v) (\<lambda>xs. Inr (data\<lparr>ubo_transforms := xs\<rparr>))"

definition set_post_transforms ::
  "render_compute_distortion_ubo_data \<Rightarrow> u32 \<Rightarrow> xrt_normalized_rect
     \<Rightarrow> error + render_compute_distortion_ubo_data" where
  "set_post_transforms data i v =
     bind_err (arr_set (ubo_post_transforms data) i v)
       (\<lambda>xs. Inr (data\<lparr>ubo_post_transforms := xs\<rparr>))"

definition color_subresource_range :: VkImageSubresourceRange where
  "color_subresource_range =
     \<lparr>isr_aspectMask = {VK_IMAGE_ASPECT_COLOR_BIT}, isr_baseMipLevel = 0,
      isr_levelCount = VK_REMAINING_MIP_LEVELS, isr_baseArrayLayer = 0,
      isr_layerCount = VK_REMAINING_ARRAY_LAYERS\<rparr>"

text \<open>The \<^verbatim>\<open>memoryBarrier\<close> every pass with a target image builds after its dispatch.\<close>

definition present_barrier :: "handle \<Rightarrow> VkImageSubresourceRange \<Rightarrow> VkImageMemoryBarrier" where
  "present_barrier target_image subresource_range =
     \<lparr>imb_srcAccessMask = {VK_ACCESS_SHADER_WRITE_BIT},
      imb_dstAccessMask = {VK_ACCESS_MEMORY_READ_BIT},
      imb_oldLayout = VK_IMAGE_LAYOUT_GENERAL,
      imb_newLayout = VK_IMAGE_LAYOUT_PRESENT_SRC_KHR,
      imb_srcQueueFamilyIndex = VK_QUEUE_FAMILY_IGNORED,
      imb_dstQueueFamilyIndex = VK_QUEUE_FAMILY_IGNORED,
      imb_image = target_image,
      imb_subresourceRange = subresource_range\<rparr>"

text \<open>
  The loop filling \<^verbatim>\<open>distortion_samplers[3 * i + 0 .. 2]\<close> of the projection, timewarp
  and clear passes; in the clear pass the same loop also fills the source arrays.
\<close>

definition fill_distortion_samplers ::
  "handle option list \<Rightarrow> u32 \<Rightarrow> handle \<Rightarrow> error + handle option list" where
  "fill_distortion_samplers distortion_samplers i sampler =
     bind_err (arr_set distortion_samplers (3 * i + 0) (Some sampler)) (\<lambda>ds.
     bind_err (arr_set ds (3 * i + 1) (Some sampler)) (\<lambda>ds.
     arr_set ds (3 * i + 2) (Some sampler)))"

definition render_compute_layers ::
  "limits \<Rightarrow> render_compute \<Rightarrow> vk_bundle \<Rightarrow> handle \<Rightarrow> handle \<Rightarrow> handle list \<Rightarrow> handle list
     \<Rightarrow> u32 \<Rightarrow> handle \<Rightarrow> render_viewport_data \<Rightarrow> bool \<Rightarrow> error + vk_bundle" where
  "render_compute_layers L render vk descriptor_set ubo src_samplers src_image_views num_srcs
       target_image_view view do_timewarp =
     (case rc_r render of
        None \<Rightarrow> Inl AssertFailed
      | Some r \<Rightarrow>
          bind_err
            (update_compute_layer_descriptor_set L vk
               (r_compute_src_binding r) src_samplers src_image_views num_srcs
               (r_compute_target_binding r) target_image_view
               (r_compute_ubo_binding r) ubo VK_WHOLE_SIZE descriptor_set)
            (\<lambda>vk.
               let pipeline = (if do_timewarp then r_compute_layer_timewarp_pipeline r
                               else r_compute_layer_non_timewarp_pipeline r);
                   vk = vkCmdBindPipeline vk (r_cmd r) VK_PIPELINE_BIND_POINT_COMPUTE pipeline;
                   vk = vkCmdBindDescriptorSets vk (r_cmd r) VK_PIPELINE_BIND_POINT_COMPUTE
                          (r_compute_layer_pipeline_layout r) 0 [descriptor_set] []
               in (case calc_dispatch_dims_1_view view of
                     (w, h) \<Rightarrow>
                       if w \<noteq> 0 \<and> h \<noteq> 0
                       then Inr (vkCmdDispatch vk (r_cmd r) w h 1)
                       else Inl AssertFailed)))"

text \<open>
  \<^verbatim>\<open>render_calc_time_warp_matrix\<close> is floating-point code outside the file: it is a
  parameter, and the pose and field-of-view types it reads stay abstract.
\<close>

definition render_compute_projection_timewarp ::
  "limits \<Rightarrow> ('pose \<Rightarrow> 'fov \<Rightarrow> 'pose \<Rightarrow> xrt_matrix_4x4) \<Rightarrow> render_compute \<Rightarrow> vk_bundle
     \<Rightarrow> handle list \<Rightarrow> handle list \<Rightarrow> xrt_normalized_rect list \<Rightarrow> 'pose list \<Rightarrow> 'fov list
     \<Rightarrow> 'pose list \<Rightarrow> handle \<Rightarrow> handle \<Rightarrow> render_viewport_data list \<Rightarrow> error + vk_bundle" where
  "render_compute_projection_timewarp L render_calc_time_warp_matrix render vk src_samplers
       src_image_views src_norm_rects src_poses src_fovs new_poses target_image
       target_image_view views =
     (case rc_r render of
        None \<Rightarrow> Inl AssertFailed
      | Some r \<Rightarrow>
          bind_err
            (for_loop (r_view_count r)
               (\<lambda>i time_warp_matrix.
                  bind_err (arr_get src_poses i) (\<lambda>src_pose.
                  bind_err (arr_get src_fovs i) (\<lambda>src_fov.
                  bind_err (arr_get new_poses i) (\<lambda>new_pose.
                  arr_set time_warp_matrix i
                    (Some (render_calc_time_warp_matrix src_pose src_fov new_pose))))))
               0 (replicate (unat (XRT_MAX_VIEWS L)) None))
            (\<lambda>time_warp_matrix.
          bind_err
            (for_loop (r_view_count r)
               (\<lambda>i data.
                  bind_err (arr_get views i) (\<lambda>v.
                  bind_err (set_views data i v) (\<lambda>data.
                  bind_err (arr_get (r_distortion_uv_to_tanangle r) i) (\<lambda>v.
                  bind_err (set_pre_transforms data i v) (\<lambda>data.
                  bind_err (arr_get_init time_warp_matrix i) (\<lambda>v.
                  bind_err (set_transforms data i v) (\<lambda>data.
                  bind_err (arr_get src_norm_rects i) (\<lambda>v.
                  set_post_transforms data i v))))))))
               0 (vk_mapped vk (r_compute_distortion_ubo_mapped r)))
            (\<lambda>data.
               let vk = vk\<lparr>vk_mapped := (vk_mapped vk)(r_compute_distortion_ubo_mapped r := data)\<rparr>;
                   subresource_range = color_subresource_range;
                   vk = vk_cmd_image_barrier_gpu_locked vk (r_cmd r) target_image {}
                          {VK_ACCESS_SHADER_WRITE_BIT} VK_IMAGE_LAYOUT_UNDEFINED
                          VK_IMAGE_LAYOUT_GENERAL subresource_range;
                   sampler = r_samplers_clamp_to_edge r
               in
          bind_err
            (for_loop (r_view_count r)
               (\<lambda>i distortion_samplers. fill_distortion_samplers distortion_samplers i sampler)
               0 (replicate (3 * unat (XRT_MAX_VIEWS L)) None))
            (\<lambda>distortion_samplers.
          bind_err
            (update_compute_shared_descriptor_set L vk
               (r_compute_src_binding r) (map Some src_samplers) (map Some src_image_views)
               (r_compute_distortion_binding r) distortion_samplers
               (map Some (r_distortion_image_views r))
               (r_compute_target_binding r) target_image_view
               (r_compute_ubo_binding r) (r_compute_distortion_ubo_buffer r) VK_WHOLE_SIZE
               (rc_shared_descriptor_set render) (r_view_count r))
            (\<lambda>vk.
               let vk = vkCmdBindPipeline vk (r_cmd r) VK_PIPELINE_BIND_POINT_COMPUTE
                          (r_compute_distortion_timewarp_pipeline r);
                   vk = vkCmdBindDescriptorSets vk (r_cmd r) VK_PIPELINE_BIND_POINT_COMPUTE
                          (r_compute_distortion_pipeline_layout r) 0
                          [rc_shared_descriptor_set render] []
               in
          bind_err (calc_dispatch_dims_views views (r_view_count r))
            (\<lambda>(w, h).
               if w \<noteq> 0 \<and> h \<noteq> 0
               then
                 (let vk = vkCmdDispatch vk (r_cmd r) w h 2;
                      memoryBarrier = present_barrier target_image subresource_range
                  in Inr (vkCmdPipelineBarrier vk (r_cmd r)
                            {VK_PIPELINE_STAGE_COMPUTE_SHADER_BIT}
                            {VK_PIPELINE_STAGE_TOP_OF_PIPE_BIT} 0 0 0 [memoryBarrier]))
               else Inl AssertFailed))))))"

definition render_compute_projection ::
  "limits \<Rightarrow> render_compute \<Rightarrow> vk_bundle \<Rightarrow> handle list \<Rightarrow> handle list
     \<Rightarrow> xrt_normalized_rect list \<Rightarrow> handle \<Rightarrow> handle \<Rightarrow> render_viewport_data list
     \<Rightarrow> error + vk_bundle" where
  "render_compute_projection L render vk src_samplers src_image_views src_norm_rects
       target_image target_image_view views =
     (case rc_r render of
        None \<Rightarrow> Inl AssertFailed
      | Some r \<Rightarrow>
          bind_err
            (for_loop (r_view_count r)
               (\<lambda>i data.
                  bind_err (arr_get views i) (\<lambda>v.
                  bind_err (set_views data i v) (\<lambda>data.
                  bind_err (arr_get src_norm_rects i) (\<lambda>v.
                  set_post_transforms data i v))))
               0 (vk_mapped vk (r_compute_distortion_ubo_mapped r)))
            (\<lambda>data.
               let vk = vk\<lparr>vk_mapped := (vk_mapped vk)(r_compute_distortion_ubo_mapped r := data)\<rparr>;
                   subresource_range = color_subresource_range;
                   vk = vk_cmd_image_barrier_gpu_locked vk (r_cmd r) target_image {}
                          {VK_ACCESS_SHADER_WRITE_BIT} VK_IMAGE_LAYOUT_UNDEFINED
                          VK_IMAGE_LAYOUT_GENERAL subresource_range;
                   sampler = r_samplers_clamp_to_edge r
               in
          bind_err
            (for_loop (r_view_count r)
               (\<lambda>i distortion_samplers. fill_distortion_samplers distortion_samplers i sampler)
               0 (replicate (3 * unat (XRT_MAX_VIEWS L)) None))
            (\<lambda>distortion_samplers.
          bind_err
            (update_compute_shared_descriptor_set L vk
               (r_compute_src_binding r) (map Some src_samplers) (map Some src_image_views)
               (r_compute_distortion_binding r) distortion_samplers
               (map Some (r_distortion_image_views r))
               (r_compute_target_binding r) target_image_view
               (r_compute_ubo_binding r) (r_compute_distortion_ubo_buffer r) VK_WHOLE_SIZE
               (rc_shared_descriptor_set render) (r_view_count r))
            (\<lambda>vk.
               let vk = vkCmdBindPipeline vk (r_cmd r) VK_PIPELINE_BIND_POINT_COMPUTE
                          (r_compute_distortion_pipeline r);
                   vk = vkCmdBindDescriptorSets vk (r_cmd r) VK_PIPELINE_BIND_POINT_COMPUTE
                          (r_compute_distortion_pipeline_layout r) 0
                          [rc_shared_descriptor_set render] []
               in
          bind_err (calc_dispatch_dims_views views (r_view_count r))
            (\<lambda>(w, h).
               if w \<noteq> 0 \<and> h \<noteq> 0
               then
                 (let vk = vkCmdDispatch vk (r_cmd r) w h 2;
                      memoryBarrier = present_barrier target_image subresource_range
                  in Inr (vkCmdPipelineBarrier vk (r_cmd r)
                            {VK_PIPELINE_STAGE_COMPUTE_SHADER_BIT}
                            {VK_PIPELINE_STAGE_TOP_OF_PIPE_BIT} 0 0 0 [memoryBarrier]))
               else Inl AssertFailed)))))"

text \<open>
  In the clear pass the local \<^verbatim>\<open>transforms\<close> array is filled with identity matrices
  and then never read: the model keeps the loop (it can run out of the array) and drops its
  result, as the source does.
\<close>

definition render_compute_clear ::
  "limits \<Rightarrow> render_compute \<Rightarrow> vk_bundle \<Rightarrow> handle \<Rightarrow> handle \<Rightarrow> render_viewport_data list
     \<Rightarrow> error + vk_bundle" where
  "render_compute_clear L render vk target_image target_image_view views =
     (case rc_r render of
        None \<Rightarrow> Inl AssertFailed
      | Some r \<Rightarrow>
          bind_err
            (for_loop (r_view_count r)
               (\<lambda>i transforms. arr_set transforms i (Some math_matrix_4x4_identity))
               0 (replicate (unat (XRT_MAX_VIEWS L)) None))
            (\<lambda>transforms.
          bind_err
            (for_loop (r_view_count r)
               (\<lambda>i data. bind_err (arr_get views i) (\<lambda>v. set_views data i v))
               0 (vk_mapped vk (r_compute_clear_ubo_mapped r)))
            (\<lambda>data.
               let vk = vk\<lparr>vk_mapped := (vk_mapped vk)(r_compute_clear_ubo_mapped r := data)\<rparr>;
                   subresource_range = color_subresource_range;
                   vk = vk_cmd_image_barrier_gpu_locked vk (r_cmd r) target_image {}
                          {VK_ACCESS_SHADER_WRITE_BIT} VK_IMAGE_LAYOUT_UNDEFINED
                          VK_IMAGE_LAYOUT_GENERAL subresource_range;
                   sampler = r_samplers_mock r
               in
          bind_err
            (for_loop (r_view_count r)
               (\<lambda>i (src_samplers, src_image_views, distortion_samplers).
                  bind_err (arr_set src_samplers i (Some sampler)) (\<lambda>src_samplers.
                  bind_err (arr_set src_image_views i (Some (r_mock_color_image_view r)))
                    (\<lambda>src_image_views.
                  bind_err (fill_distortion_samplers distortion_samplers i sampler)
                    (\<lambda>distortion_samplers.
                  Inr (src_samplers, src_image_views, distortion_samplers)))))
               0 (replicate (unat (XRT_MAX_VIEWS L)) None,
                  replicate (unat (XRT_MAX_VIEWS L)) None,
                  replicate (3 * unat (XRT_MAX_VIEWS L)) None))
            (\<lambda>(src_samplers, src_image_views, distortion_samplers).
          bind_err
            (update_compute_shared_descriptor_set L vk
               (r_compute_src_binding r) src_samplers src_image_views
               (r_compute_distortion_binding r) distortion_samplers
               (map Some (r_distortion_image_views r))
               (r_compute_target_binding r) target_image_view
               (r_compute_ubo_binding r) (r_compute_clear_ubo_buffer r) VK_WHOLE_SIZE
               (rc_shared_descriptor_set render) (r_view_count r))
            (\<lambda>vk.
               let vk = vkCmdBindPipeline vk (r_cmd r) VK_PIPELINE_BIND_POINT_COMPUTE
                          (r_compute_clear_pipeline r);
                   vk = vkCmdBindDescriptorSets vk (r_cmd r) VK_PIPELINE_BIND_POINT_COMPUTE
                          (r_compute_distortion_pipeline_layout r) 0
                          [rc_shared_descriptor_set render] []
               in
          bind_err (calc_dispatch_dims_views views (r_view_count r))
            (\<lambda>(w, h).
               if w \<noteq> 0 \<and> h \<noteq> 0
               then
                 (let vk = vkCmdDispatch vk (r_cmd r) w h 2;
                      memoryBarrier = present_barrier target_image subresource_range
                  in Inr (vkCmdPipelineBarrier vk (r_cmd r)
                            {VK_PIPELINE_STAGE_COMPUTE_SHADER_BIT}
                            {VK_PIPELINE_STAGE_TOP_OF_PIPE_BIT} 0 0 0 [memoryBarrier]))
               else Inl AssertFailed))))))"

section \<open>Vocabulary of the properties\<close>

text \<open>
  The largest extent of a list of viewports in one component (\<open>vp_w\<close> or \<open>vp_h\<close>); the
  extents are unsigned, so an empty list has the largest extent 0.
\<close>

definition max_extent :: "(render_viewport_data \<Rightarrow> u32) \<Rightarrow> render_viewport_data list \<Rightarrow> u32" where
  "max_extent f vs = Max (insert 0 (f ` set vs))"

text \<open>The calls a function added to the record of calls.\<close>

definition new_calls :: "vk_bundle \<Rightarrow> vk_bundle \<Rightarrow> vk_call list" where
  "new_calls vk vk' = drop (length (vk_calls vk)) (vk_calls vk')"

text \<open>
  What a call means for the target image of a pass: a barrier that takes an image from the
  undefined to the general layout for shader writes, a dispatch, or a barrier that takes an
  image from the general to the presentation layout, shader writes before memory reads.
  Every other call has no event.
\<close>

datatype pass_event = PreBarrier handle | Dispatch | PostBarrier handle

fun pass_event_of :: "vk_call \<Rightarrow> pass_event list" where
  "pass_event_of (Call_vk_cmd_image_barrier_gpu_locked cmd img src_access dst_access
       old_layout new_layout subresource_range) =
     (if old_layout = VK_IMAGE_LAYOUT_UNDEFINED \<and> new_layout = VK_IMAGE_LAYOUT_GENERAL
         \<and> dst_access = {VK_ACCESS_SHADER_WRITE_BIT}
      then [PreBarrier img] else [])"
| "pass_event_of (Call_vkCmdDispatch cmd x y z) = [Dispatch]"
| "pass_event_of (Call_vkCmdPipelineBarrier cmd src_stage dst_stage flags n_memory n_buffer
       image_barriers) =
     map (\<lambda>b. PostBarrier (imb_image b))
       (filter (\<lambda>b. imb_oldLayout b = VK_IMAGE_LAYOUT_GENERAL
                    \<and> imb_newLayout b = VK_IMAGE_LAYOUT_PRESENT_SRC_KHR
                    \<and> imb_srcAccessMask b = {VK_ACCESS_SHADER_WRITE_BIT}
                    \<and> imb_dstAccessMask b = {VK_ACCESS_MEMORY_READ_BIT}) image_barriers)"
| "pass_event_of (Call_vkCmdBindPipeline cmd bind_point pipeline) = []"
| "pass_event_of (Call_vkCmdBindDescriptorSets cmd bind_point layout first sets offsets) = []"
| "pass_event_of (Call_vkUpdateDescriptorSets writes) = []"
| "pass_event_of (Call_vkResetDescriptorPool pool flags) = []"

definition pass_events :: "vk_call list \<Rightarrow> pass_event list" where
  "pass_events cs = concat (map pass_event_of cs)"

text \<open>
  The target image is made writable strictly before the one dispatch, and presentable
  strictly after it.
\<close>

definition barriers_bracket_dispatch :: "handle \<Rightarrow> vk_call list \<Rightarrow> bool" where
  "barriers_bracket_dispatch target_image cs \<longleftrightarrow>
     pass_events cs = [PreBarrier target_image, Dispatch, PostBarrier target_image]"

text \<open>A call that records a barrier, whatever its image, layouts and access masks.\<close>

fun is_barrier_call :: "vk_call \<Rightarrow> bool" where
  "is_barrier_call (Call_vk_cmd_image_barrier_gpu_locked cmd img src_access dst_access
       old_layout new_layout subresource_range) = True"
| "is_barrier_call (Call_vkCmdPipelineBarrier cmd src_stage dst_stage flags n_memory n_buffer
       image_barriers) = True"
| "is_barrier_call (Call_vkCmdDispatch cmd x y z) = False"
| "is_barrier_call (Call_vkCmdBindPipeline cmd bind_point pipeline) = False"
| "is_barrier_call (Call_vkCmdBindDescriptorSets cmd bind_point layout first sets offsets) = False"
| "is_barrier_call (Call_vkUpdateDescriptorSets writes) = False"
| "is_barrier_call (Call_vkResetDescriptorPool pool flags) = False"

text \<open>The \<^verbatim>\<open>groupCountZ\<close> of every dispatch among the calls, in order.\<close>

fun dispatch_depth_of :: "vk_call \<Rightarrow> u32 list" where
  "dispatch_depth_of (Call_vkCmdDispatch cmd x y z) = [z]"
| "dispatch_depth_of (Call_vk_cmd_image_barrier_gpu_locked cmd img src_access dst_access
       old_layout new_layout subresource_range) = []"
| "dispatch_depth_of (Call_vkCmdPipelineBarrier cmd src_stage dst_stage flags n_memory n_buffer
       image_barriers) = []"
| "dispatch_depth_of (Call_vkCmdBindPipeline cmd bind_point pipeline) = []"
| "dispatch_depth_of (Call_vkCmdBindDescriptorSets cmd bind_point layout first sets offsets) = []"
| "dispatch_depth_of (Call_vkUpdateDescriptorSets writes) = []"
| "dispatch_depth_of (Call_vkResetDescriptorPool pool flags) = []"

definition dispatch_depths :: "vk_call list \<Rightarrow> u32 list" where
  "dispatch_depths cs = concat (map dispatch_depth_of cs)"

text \<open>The slots one write of \<^verbatim>\<open>vkUpdateDescriptorSets\<close> covers.\<close>

definition covered :: "VkWriteDescriptorSet \<Rightarrow> slot \<Rightarrow> bool" where
  "covered wr s =
     (case s of (dset, binding, k) \<Rightarrow>
        dset = wds_dstSet wr \<and> binding = wds_dstBinding wr
        \<and> unat (wds_dstArrayElement wr) \<le> k
        \<and> k < unat (wds_dstArrayElement wr) + unat (wds_descriptorCount wr))"

text \<open>
  The slots of the shared descriptor set that belong to the views in use: one source
  image per view, three distortion images per view, the target image and the uniform
  buffer; and what the driver holds in them.
\<close>

definition shared_slots :: "render_compute \<Rightarrow> render_resources \<Rightarrow> slot list" where
  "shared_slots render r =
     map (\<lambda>k. (rc_shared_descriptor_set render, r_compute_src_binding r, k))
       [0 ..< unat (r_view_count r)]
     @ map (\<lambda>k. (rc_shared_descriptor_set render, r_compute_distortion_binding r, k))
         [0 ..< unat (3 * r_view_count r)]
     @ [(rc_shared_descriptor_set render, r_compute_target_binding r, 0),
        (rc_shared_descriptor_set render, r_compute_ubo_binding r, 0)]"

definition shared_binding_contents ::
  "vk_bundle \<Rightarrow> render_compute \<Rightarrow> render_resources \<Rightarrow> descriptor option list" where
  "shared_binding_contents vk render r = map (vk_descriptors vk) (shared_slots render r)"

text \<open>The image info the descriptor updates build for source \<open>i\<close>.\<close>

definition src_info :: "handle list \<Rightarrow> handle list \<Rightarrow> nat \<Rightarrow> VkDescriptorImageInfo" where
  "src_info src_samplers src_image_views i =
     \<lparr>dii_sampler = src_samplers ! i, dii_imageView = src_image_views ! i,
      dii_imageLayout = VK_IMAGE_LAYOUT_SHADER_READ_ONLY_OPTIMAL\<rparr>"


section \<open>A configuration for concrete runs\<close>

text \<open>
  Two views, four source images for a layer, three layer descriptor sets; the resources are
  distinct handles, the mapped uniform data holds zeroed viewports and zero matrices.
\<close>

definition L0 :: limits where
  "L0 = \<lparr>XRT_MAX_VIEWS = 2, RENDER_MAX_IMAGES_SIZE = 4, RENDER_MAX_LAYER_RUNS_COUNT = 3\<rparr>"

definition rect0 :: xrt_normalized_rect where
  "rect0 = \<lparr>nr_x = 0, nr_y = 0, nr_w = 0x3F800000, nr_h = 0x3F800000\<rparr>"

definition r0 :: render_resources where
  "r0 = \<lparr>r_view_count = 2, r_cmd = 100, r_compute_descriptor_pool = 101,
     r_compute_src_binding = 0, r_compute_distortion_binding = 1,
     r_compute_target_binding = 2, r_compute_ubo_binding = 3,
     r_compute_layer_descriptor_set_layout = 110,
     r_compute_layer_timewarp_pipeline = 111,
     r_compute_layer_non_timewarp_pipeline = 112,
     r_compute_layer_pipeline_layout = 113,
     r_compute_distortion_descriptor_set_layout = 120,
     r_compute_distortion_ubo_mapped = 121,
     r_compute_distortion_ubo_buffer = 122,
     r_compute_distortion_pipeline = 123,
     r_compute_distortion_timewarp_pipeline = 124,
     r_compute_distortion_pipeline_layout = 125,
     r_compute_clear_ubo_mapped = 131,
     r_compute_clear_ubo_buffer = 132,
     r_compute_clear_pipeline = 133,
     r_distortion_uv_to_tanangle = [rect0, rect0],
     r_distortion_image_views = [141, 142, 143, 144, 145, 146],
     r_samplers_clamp_to_edge = 150, r_samplers_mock = 151,
     r_mock_color_image_view = 152\<rparr>"

definition vp_zero :: render_viewport_data where
  "vp_zero = \<lparr>vp_x = 0, vp_y = 0, vp_w = 0, vp_h = 0\<rparr>"

definition matrix_zero :: xrt_matrix_4x4 where
  "matrix_zero = Matrix4x4 [0, 0, 0, 0, 0, 0, 0, 0, 0, 0, 0, 0, 0, 0, 0, 0]"

definition ubo0 :: render_compute_distortion_ubo_data where
  "ubo0 = \<lparr>ubo_views = [vp_zero, vp_zero], ubo_pre_transforms = [rect0, rect0],
     ubo_transforms = [matrix_zero, matrix_zero], ubo_post_transforms = [rect0, rect0]\<rparr>"

definition vk0 :: vk_bundle where
  "vk0 = \<lparr>vk_calls = [], vk_descriptors = Map.empty, vk_mapped = (\<lambda>p. ubo0),
     vk_pool_max_sets = 4, vk_pool_sets = []\<rparr>"


definition render1 :: render_compute where
  "render1 = \<lparr>rc_r = Some r0, rc_layer_descriptor_sets = [1, 2, 3],
     rc_shared_descriptor_set = 4\<rparr>"

definition views0 :: "render_viewport_data list" where
  "views0 = [\<lparr>vp_x = 0, vp_y = 0, vp_w = 1920, vp_h = 1080\<rparr>,
             \<lparr>vp_x = 1920, vp_y = 0, vp_w = 1000, vp_h = 1200\<rparr>]"

text \<open>Runs of the four passes on the attached context, and of a layer pass on an empty viewport.\<close>

definition run_layers :: "error + vk_bundle" where
  "run_layers =
     render_compute_layers L0 render1 vk0 1 400 [300, 301] [302, 303] 2 201 (hd views0) True"


definition calc0 :: "nat \<Rightarrow> nat \<Rightarrow> nat \<Rightarrow> xrt_matrix_4x4" where
  "calc0 src_pose src_fov new_pose = Matrix4x4 [of_nat src_pose, of_nat src_fov, of_nat new_pose]"

definition run_timewarp :: "error + vk_bundle" where
  "run_timewarp =
     render_compute_projection_timewarp L0 calc0 render1 vk0 [300, 301] [302, 303]
       [rect0, rect0] [1, 2] [3, 4] [5, 6] 200 201 views0"

definition run_projection :: "error + vk_bundle" where
  "run_projection =
     render_compute_projection L0 render1 vk0 [300, 301] [302, 303] [rect0, rect0] 200 201
       views0"

definition run_clear :: "error + vk_bundle" where
  "run_clear = render_compute_clear L0 render1 vk0 200 201 views0"

text \<open>A projection pass recorded after a clear pass; an initialisation on a pool of two sets.\<close>

definition run_projection_after_clear :: "error + vk_bundle" where
  "run_projection_after_clear =
     render_compute_projection L0 render1 (projr run_clear) [300, 301] [302, 303]
       [rect0, rect0] 200 201 views0"




section \<open>Counted loops and the error monad\<close>

lemma bind_err_Inr_iff: "bind_err m f = Inr y \<longleftrightarrow> (\<exists>x. m = Inr x \<and> f x = Inr y)"
  by (cases m) (simp_all add: bind_err_def)

lemma unat_inc: "(i :: u32) < n \<Longrightarrow> unat (i + 1) = Suc (unat i)"
  by unat_arith

lemma le_inc: "(i :: u32) < n \<Longrightarrow> i \<le> i + 1"
  by unat_arith

text \<open>
  An invariant that holds at the start of a loop and is kept by every body that returns
  holds after the loop, when the loop returns.
\<close>

lemma for_loop_inv:
  assumes "for_loop n body i s = Inr s'" and "i \<le> n" and "I i s"
    and "\<And>j t t'. i \<le> j \<Longrightarrow> j < n \<Longrightarrow> I j t \<Longrightarrow> body j t = Inr t' \<Longrightarrow> I (j + 1) t'"
  shows "I n s'"
  using assms
proof (induction n body i s rule: for_loop.induct)
  case (1 n body i s)
  show ?case
  proof (cases "i < n")
    case False
    with "1.prems"(2) have "i = n" by simp
    moreover from False "1.prems"(1) have "s' = s" by (simp add: for_loop.simps)
    ultimately show ?thesis using "1.prems"(3) by simp
  next
    case True
    with "1.prems"(1) obtain t
      where b: "body i s = Inr t" and r: "for_loop n body (i + 1) t = Inr s'"
      by (auto simp: for_loop.simps [of n body i s] split: sum.splits)
    from True have le: "i + 1 \<le> n" by (rule inc_le)
    from True have ile: "i \<le> i + 1" by (rule le_inc)
    have It: "I (i + 1) t" using "1.prems"(4) [OF order_refl True "1.prems"(3) b] .
    show ?thesis
    proof (rule "1.IH" [OF True b r le It])
      fix j u u'
      assume "i + 1 \<le> j" "j < n" "I j u" "body j u = Inr u'"
      with ile show "I (j + 1) u'" using "1.prems"(4) [of j u u'] by simp
    qed
  qed
qed

text \<open>The same for a loop whose bodies all return: then the loop returns.\<close>

lemma for_loop_total:
  assumes "i \<le> n" and "I i s"
    and "\<And>j t. i \<le> j \<Longrightarrow> j < n \<Longrightarrow> I j t \<Longrightarrow> \<exists>t'. body j t = Inr t' \<and> I (j + 1) t'"
  shows "\<exists>s'. for_loop n body i s = Inr s' \<and> I n s'"
  using assms
proof (induction n body i s rule: for_loop.induct)
  case (1 n body i s)
  show ?case
  proof (cases "i < n")
    case False
    with "1.prems"(1) have "i = n" by simp
    with False "1.prems"(2) show ?thesis by (simp add: for_loop.simps)
  next
    case True
    from "1.prems"(3) [OF order_refl True "1.prems"(2)]
    obtain t where b: "body i s = Inr t" and It: "I (i + 1) t" by blast
    from True have le: "i + 1 \<le> n" by (rule inc_le)
    from True have ile: "i \<le> i + 1" by (rule le_inc)
    have "\<exists>s'. for_loop n body (i + 1) t = Inr s' \<and> I n s'"
    proof (rule "1.IH" [OF True b le It])
      fix j u
      assume "i + 1 \<le> j" "j < n" "I j u"
      with ile show "\<exists>t'. body j u = Inr t' \<and> I (j + 1) t'"
        using "1.prems"(3) [of j u] by simp
    qed
    with True b show ?thesis by (simp add: for_loop.simps [of n body i s])
  qed
qed


section \<open>Dispatch geometry\<close>

lemma unat_uint_divide_and_round_up_8:
  "unat (uint_divide_and_round_up a 8) = ((unat a + 7) mod 2 ^ 32) div 8"
  by (simp add: uint_divide_and_round_up_def unat_div unat_word_ariths)

lemma uint_divide_and_round_up_8_small:
  assumes "unat a \<le> 2 ^ 32 - 8"
  shows "unat (uint_divide_and_round_up a 8) = (unat a + 7) div 8"
proof -
  from assms have "unat a + 7 < 2 ^ 32" by simp
  then show ?thesis by (simp add: unat_uint_divide_and_round_up_8)
qed

lemma uint_divide_and_round_up_8_big:
  assumes "2 ^ 32 - 7 \<le> unat a"
  shows "uint_divide_and_round_up a 8 = 0"
proof -
  have lt: "unat a < 2 ^ 32" using unsigned_less [of a] by simp
  with assms have "(unat a + 7) mod 2 ^ 32 = unat a + 7 - 2 ^ 32"
    by (simp add: mod_if)
  with assms lt have "((unat a + 7) mod 2 ^ 32) div 8 = 0"
    by simp
  then have "unat (uint_divide_and_round_up a 8) = 0"
    by (simp add: unat_uint_divide_and_round_up_8)
  then show ?thesis by (simp add: unat_eq_0)
qed


text \<open>
  Claim C1, as amended. For every 32-bit extent \<open>w\<close> with \<open>1 \<le> w \<le> 2^32 - 8\<close> the
  work-group count \<open>uint_divide_and_round_up w 8\<close> covers the extent and is the least count
  that does: \<open>count * 8 \<ge> w\<close> and \<open>(count - 1) * 8 < w\<close>, in the integers as well as in
  the 32-bit arithmetic of the code. A viewport of 1920 by 1080 gives the dispatch
  dimensions (240, 135), and one of 1 by 1 gives (1, 1).
\<close>

theorem ceil_div_covers_up_to_limit:
  "(0 < w \<and> unat w \<le> 2 ^ 32 - 8 \<longrightarrow>
      unat w \<le> unat (uint_divide_and_round_up w 8) * 8
      \<and> (unat (uint_divide_and_round_up w 8) - 1) * 8 < unat w
      \<and> w \<le> uint_divide_and_round_up w 8 * 8
      \<and> (uint_divide_and_round_up w 8 - 1) * 8 < w)
   \<and> calc_dispatch_dims_1_view \<lparr>vp_x = x, vp_y = y, vp_w = 1920, vp_h = 1080\<rparr> = (240, 135)
   \<and> calc_dispatch_dims_1_view \<lparr>vp_x = x, vp_y = y, vp_w = 1, vp_h = 1\<rparr> = (1, 1)"
proof (intro conjI impI)
  assume a: "0 < w \<and> unat w \<le> 2 ^ 32 - 8"
  let ?g = "uint_divide_and_round_up w 8"
  have g: "unat ?g = (unat w + 7) div 8"
    using a by (simp add: uint_divide_and_round_up_8_small)
  from a have pos: "0 < unat w" by (simp add: word_less_nat_alt)
  show c1: "unat w \<le> unat ?g * 8" using g by simp
  show c2: "(unat ?g - 1) * 8 < unat w" using g pos by simp
  from a have "unat w \<le> 4294967288" by simp
  then have "(unat w + 7) div 8 * 8 < 4294967296" by arith
  then have ub: "unat ?g * 8 < 2 ^ 32" using g by simp
  have m: "unat (?g * 8) = unat ?g * 8" using ub by (simp add: unat_word_ariths)
  have "0 < unat ?g" using g pos by simp
  then have g1: "unat (?g - 1) = unat ?g - 1"
    by (metis unat_minus_one unat_eq_0 less_numeral_extra(3) unsigned_0)
  have "unat (?g - 1) * unat (8 :: u32) < 2 ^ LENGTH(32)"
    using ub g1 by simp
  then have "unat ((?g - 1) * 8) = unat (?g - 1) * unat (8 :: u32)"
    by (rule unat_mult_lem [THEN iffD1])
  then have m1: "unat ((?g - 1) * 8) = (unat ?g - 1) * 8"
    using g1 by simp
  show "w \<le> ?g * 8" using c1 m by (simp add: word_le_nat_alt)
  show "(?g - 1) * 8 < w" using c2 m1 by (simp add: word_less_nat_alt)
next
  show "calc_dispatch_dims_1_view \<lparr>vp_x = x, vp_y = y, vp_w = 1920, vp_h = 1080\<rparr> = (240, 135)"
    by (simp add: calc_dispatch_dims_1_view_def uint_divide_and_round_up_def)
  show "calc_dispatch_dims_1_view \<lparr>vp_x = x, vp_y = y, vp_w = 1, vp_h = 1\<rparr> = (1, 1)"
    by (simp add: calc_dispatch_dims_1_view_def uint_divide_and_round_up_def)
qed

theorem ceil_div_covers_up_to_limit_witness:
  "(0 :: u32) < 1921 \<and> unat (1921 :: u32) \<le> 2 ^ 32 - 8
   \<and> uint_divide_and_round_up 1921 8 = 241
   \<and> (1921 :: u32) \<le> uint_divide_and_round_up 1921 8 * 8
   \<and> (uint_divide_and_round_up 1921 8 - 1) * 8 < (1921 :: u32)
   \<and> calc_dispatch_dims_1_view \<lparr>vp_x = 0, vp_y = 0, vp_w = 1920, vp_h = 1080\<rparr> = (240, 135)"
  using ceil_div_covers_up_to_limit [of 1921 0 0]
  by (simp add: uint_divide_and_round_up_def)

text \<open>
  Claim C1 as stated fails for the largest extents: \<open>2^32 - 1\<close> is a positive 32-bit
  extent whose work-group count is 0, which covers nothing.
\<close>

theorem ceil_div_wraps_counterexample:
  "(0 :: u32) < 0xFFFFFFFF
   \<and> uint_divide_and_round_up 0xFFFFFFFF 8 = 0
   \<and> \<not> (unat (0xFFFFFFFF :: u32) \<le> unat (uint_divide_and_round_up 0xFFFFFFFF 8) * 8)
   \<and> \<not> ((0xFFFFFFFF :: u32) \<le> uint_divide_and_round_up 0xFFFFFFFF 8 * 8)"
  by (simp add: uint_divide_and_round_up_def)

text \<open>
  Claim C10. \<open>uint_divide_and_round_up a 8\<close> is \<open>(a + 7) div 8\<close> with the sum taken modulo
  \<open>2^32\<close>. For \<open>a \<ge> 2^32 - 7\<close> the sum wraps: the result is 0, below the true ceiling of
  \<open>a / 8\<close>. The count covers the extent (\<open>count * 8 \<ge> a\<close>) exactly for the extents up to
  \<open>2^32 - 8\<close>.
\<close>

theorem uint_divide_and_round_up_wraps:
  "unat (uint_divide_and_round_up a 8) = ((unat a + 7) mod 2 ^ 32) div 8
   \<and> (2 ^ 32 - 7 \<le> unat a \<longrightarrow>
         uint_divide_and_round_up a 8 = 0
         \<and> unat (uint_divide_and_round_up a 8) < (unat a + 7) div 8)
   \<and> (unat a \<le> unat (uint_divide_and_round_up a 8) * 8 \<longleftrightarrow> unat a \<le> 2 ^ 32 - 8)"
proof (intro conjI impI)
  show "unat (uint_divide_and_round_up a 8) = ((unat a + 7) mod 2 ^ 32) div 8"
    by (rule unat_uint_divide_and_round_up_8)
next
  assume big: "2 ^ 32 - 7 \<le> unat a"
  then show z: "uint_divide_and_round_up a 8 = 0"
    by (rule uint_divide_and_round_up_8_big)
  from big show "unat (uint_divide_and_round_up a 8) < (unat a + 7) div 8"
    by (simp add: z)
next
  show "unat a \<le> unat (uint_divide_and_round_up a 8) * 8 \<longleftrightarrow> unat a \<le> 2 ^ 32 - 8"
  proof (cases "unat a \<le> 2 ^ 32 - 8")
    case True
    then show ?thesis by (simp add: uint_divide_and_round_up_8_small)
  next
    case False
    then have "2 ^ 32 - 7 \<le> unat a" by simp
    then have "uint_divide_and_round_up a 8 = 0" by (rule uint_divide_and_round_up_8_big)
    with False show ?thesis by simp
  qed
qed

theorem uint_divide_and_round_up_wraps_witness:
  "(2 :: nat) ^ 32 - 7 \<le> unat (0xFFFFFFF9 :: u32)
   \<and> uint_divide_and_round_up 0xFFFFFFF9 8 = 0
   \<and> unat (uint_divide_and_round_up 0xFFFFFFF9 8) < (unat (0xFFFFFFF9 :: u32) + 7) div 8
   \<and> uint_divide_and_round_up 0xFFFFFFF8 8 = 0x1FFFFFFF"
  using uint_divide_and_round_up_wraps [of "0xFFFFFFF9"]
  by (simp add: uint_divide_and_round_up_def)

lemma IMAX_max: "IMAX a b = max a b"
  by (auto simp: IMAX_def max_def)

lemma max_extent_snoc: "max_extent f (vs @ [v]) = max (max_extent f vs) (f v)"
proof -
  have "max_extent f (vs @ [v]) = Max (insert (f v) (insert 0 (f ` set vs)))"
    by (simp add: max_extent_def insert_commute)
  also have "\<dots> = max (f v) (Max (insert 0 (f ` set vs)))"
    by (rule Max_insert) simp_all
  finally show ?thesis by (simp add: max_extent_def max.commute)
qed

lemma max_extent_nonempty: "vs \<noteq> [] \<Longrightarrow> max_extent f vs = Max (f ` set vs)"
proof -
  assume ne: "vs \<noteq> []"
  have "Max (insert 0 (f ` set vs)) = max 0 (Max (f ` set vs))"
    by (rule Max_insert) (use ne in simp_all)
  then show ?thesis by (simp add: max_extent_def max_def)
qed

text \<open>The loop of \<open>calc_dispatch_dims_views\<close> over a whole array finds the largest extents.\<close>

lemma views_loop_max_extent:
  assumes len: "length views < 2 ^ 32"
  shows "for_loop (of_nat (length views))
          (\<lambda>i (w, h). bind_err (arr_get views i)
             (\<lambda>v. Inr (IMAX w (vp_w v), IMAX h (vp_h v))))
          0 (0, 0) = Inr (max_extent vp_w views, max_extent vp_h views)"
proof -
  let ?n = "of_nat (length views) :: u32"
  let ?body = "\<lambda>i (w, h). bind_err (arr_get views i)
             (\<lambda>v. Inr (IMAX w (vp_w v), IMAX h (vp_h v)))"
  let ?I = "\<lambda>(j :: u32) s. s = (max_extent vp_w (take (unat j) views),
                                max_extent vp_h (take (unat j) views))"
  have n: "unat ?n = length views" using len by (simp add: unat_of_nat)
  have "\<exists>s'. for_loop ?n ?body 0 (0, 0) = Inr s' \<and> ?I ?n s'"
  proof (rule for_loop_total)
    show "(0 :: u32) \<le> ?n" by simp
    show "?I 0 (0, 0)" by (simp add: max_extent_def)
  next
    fix j :: u32 and t :: "u32 \<times> u32"
    assume lt: "j < ?n" and I: "?I j t"
    from lt n have jl: "unat j < length views" by (simp add: word_less_nat_alt)
    from lt have suc: "unat (j + 1) = Suc (unat j)" by (rule unat_inc)
    from jl have tk: "take (Suc (unat j)) views = take (unat j) views @ [views ! unat j]"
      by (simp add: take_Suc_conv_app_nth)
    show "\<exists>t'. ?body j t = Inr t' \<and> ?I (j + 1) t'"
      using I jl by (simp add: bind_err_def arr_get_def suc tk max_extent_snoc IMAX_max)
  qed
  with n show ?thesis by simp
qed

lemma calc_dispatch_dims_views_max_extent:
  assumes "length views < 2 ^ 32"
  shows "calc_dispatch_dims_views views (of_nat (length views)) =
    Inr (uint_divide_and_round_up (max_extent vp_w views) 8,
         uint_divide_and_round_up (max_extent vp_h views) 8)"
  by (simp only: calc_dispatch_dims_views_def views_loop_max_extent [OF assms])
     (simp add: bind_err_def)

text \<open>
  Claim C2. For a non-empty list of viewports (as long as a 32-bit count can say) the
  multi-view dispatch dimensions are the single-view dispatch dimensions of a viewport that
  has the largest width and the largest height of the list, and every permutation of the list
  gives the same dimensions.
\<close>

theorem calc_dispatch_dims_views_is_max_view:
  assumes "views \<noteq> []" and "length views < 2 ^ 32"
  shows "calc_dispatch_dims_views views (of_nat (length views)) =
           Inr (calc_dispatch_dims_1_view
                  \<lparr>vp_x = x, vp_y = y, vp_w = Max (vp_w ` set views),
                   vp_h = Max (vp_h ` set views)\<rparr>)
       \<and> (\<forall>views'. mset views' = mset views \<longrightarrow>
             calc_dispatch_dims_views views' (of_nat (length views')) =
             calc_dispatch_dims_views views (of_nat (length views)))"
proof (intro conjI allI impI)
  show "calc_dispatch_dims_views views (of_nat (length views)) =
           Inr (calc_dispatch_dims_1_view
                  \<lparr>vp_x = x, vp_y = y, vp_w = Max (vp_w ` set views),
                   vp_h = Max (vp_h ` set views)\<rparr>)"
    using assms
    by (simp add: calc_dispatch_dims_views_max_extent calc_dispatch_dims_1_view_def
        max_extent_nonempty)
next
  fix views' :: "render_viewport_data list"
  assume p: "mset views' = mset views"
  then have l: "length views' = length views" by (rule mset_eq_length)
  from p have s: "set views' = set views" by (rule mset_eq_setD)
  from s have "max_extent vp_w views' = max_extent vp_w views"
    and "max_extent vp_h views' = max_extent vp_h views"
    by (simp_all add: max_extent_def)
  moreover from l assms(2) have l': "length views' < 2 ^ 32" by simp
  ultimately show "calc_dispatch_dims_views views' (of_nat (length views')) =
             calc_dispatch_dims_views views (of_nat (length views))"
    by (simp only: calc_dispatch_dims_views_max_extent [OF l']
        calc_dispatch_dims_views_max_extent [OF assms(2)])
qed

theorem calc_dispatch_dims_views_is_max_view_witness:
  "views0 \<noteq> [] \<and> length views0 < 2 ^ 32
   \<and> calc_dispatch_dims_views views0 2 = Inr (240, 150)
   \<and> calc_dispatch_dims_views (rev views0) 2 = Inr (240, 150)"
  using calc_dispatch_dims_views_is_max_view [of views0 0 0, THEN conjunct1]
    calc_dispatch_dims_views_is_max_view [of views0 0 0, THEN conjunct2, THEN spec,
      of "rev views0"]
  by (simp add: views0_def calc_dispatch_dims_1_view_def uint_divide_and_round_up_def)

section \<open>The calls of the passes\<close>

lemma record_call_sel [simp]:
  "vk_calls (record_call vk c) = vk_calls vk @ [c]"
  "vk_descriptors (record_call vk c) = vk_descriptors vk"
  "vk_mapped (record_call vk c) = vk_mapped vk"
  "vk_pool_sets (record_call vk c) = vk_pool_sets vk"
  "vk_pool_max_sets (record_call vk c) = vk_pool_max_sets vk"
  by (simp_all add: record_call_def)

lemmas vk_cmd_defs = vkCmdBindPipeline_def vkCmdBindDescriptorSets_def vkCmdDispatch_def
  vkCmdPipelineBarrier_def vk_cmd_image_barrier_gpu_locked_def

lemma vkUpdateDescriptorSets_Inr:
  assumes "vkUpdateDescriptorSets vk ws = Inr vk'"
  shows "vk_calls vk' = vk_calls vk @ [Call_vkUpdateDescriptorSets ws]"
    and "vk_mapped vk' = vk_mapped vk"
    and "write_descriptors (vk_descriptors vk) ws = Inr (vk_descriptors vk')"
  using assms by (auto simp: vkUpdateDescriptorSets_def bind_err_Inr_iff)

lemma update_compute_shared_descriptor_set_Inr:
  assumes "update_compute_shared_descriptor_set L vk sb ss sv db ds dv tb tv ub ubuf usz dset vc
             = Inr vk'"
  shows "\<exists>ws. vk_calls vk' = vk_calls vk @ [Call_vkUpdateDescriptorSets ws]"
    and "vk_mapped vk' = vk_mapped vk"
  using assms
  by (auto simp: update_compute_shared_descriptor_set_def bind_err_Inr_iff Let_def
      dest: vkUpdateDescriptorSets_Inr)

lemma update_compute_layer_descriptor_set_Inr:
  assumes "update_compute_layer_descriptor_set L vk sb ss sv n tb tv ub ubuf usz dset = Inr vk'"
  shows "\<exists>ws. vk_calls vk' = vk_calls vk @ [Call_vkUpdateDescriptorSets ws]"
    and "vk_mapped vk' = vk_mapped vk"
  using assms
  by (auto simp: update_compute_layer_descriptor_set_def bind_err_Inr_iff Let_def
      dest: vkUpdateDescriptorSets_Inr)

lemma new_calls_append: "vk_calls vk' = vk_calls vk @ cs \<Longrightarrow> new_calls vk vk' = cs"
  by (simp add: new_calls_def)

text \<open>What each pass adds to the record of calls when it returns.\<close>

lemma render_compute_layers_calls:
  assumes "render_compute_layers L render vk dset ubo ss sv n tiv view tw = Inr vk'"
    and "rc_r render = Some r"
  shows "\<exists>ws w h. new_calls vk vk' =
           [Call_vkUpdateDescriptorSets ws,
            Call_vkCmdBindPipeline (r_cmd r) VK_PIPELINE_BIND_POINT_COMPUTE
              (if tw then r_compute_layer_timewarp_pipeline r
               else r_compute_layer_non_timewarp_pipeline r),
            Call_vkCmdBindDescriptorSets (r_cmd r) VK_PIPELINE_BIND_POINT_COMPUTE
              (r_compute_layer_pipeline_layout r) 0 [dset] [],
            Call_vkCmdDispatch (r_cmd r) w h 1]
          \<and> calc_dispatch_dims_1_view view = (w, h) \<and> w \<noteq> 0 \<and> h \<noteq> 0"
proof -
  obtain w h where d: "calc_dispatch_dims_1_view view = (w, h)"
    by (cases "calc_dispatch_dims_1_view view")
  with assms show ?thesis
    by (auto simp: render_compute_layers_def bind_err_Inr_iff Let_def vk_cmd_defs new_calls_def
        split: if_splits dest!: update_compute_layer_descriptor_set_Inr(1))
qed

lemma render_compute_projection_timewarp_calls:
  assumes "render_compute_projection_timewarp L calc render vk ss sv rects sp sf np ti tiv views
             = Inr vk'"
    and "rc_r render = Some r"
  shows "\<exists>ws w h. new_calls vk vk' =
           [Call_vk_cmd_image_barrier_gpu_locked (r_cmd r) ti {} {VK_ACCESS_SHADER_WRITE_BIT}
              VK_IMAGE_LAYOUT_UNDEFINED VK_IMAGE_LAYOUT_GENERAL color_subresource_range,
            Call_vkUpdateDescriptorSets ws,
            Call_vkCmdBindPipeline (r_cmd r) VK_PIPELINE_BIND_POINT_COMPUTE
              (r_compute_distortion_timewarp_pipeline r),
            Call_vkCmdBindDescriptorSets (r_cmd r) VK_PIPELINE_BIND_POINT_COMPUTE
              (r_compute_distortion_pipeline_layout r) 0 [rc_shared_descriptor_set render] [],
            Call_vkCmdDispatch (r_cmd r) w h 2,
            Call_vkCmdPipelineBarrier (r_cmd r) {VK_PIPELINE_STAGE_COMPUTE_SHADER_BIT}
              {VK_PIPELINE_STAGE_TOP_OF_PIPE_BIT} 0 0 0
              [present_barrier ti color_subresource_range]]
          \<and> calc_dispatch_dims_views views (r_view_count r) = Inr (w, h) \<and> w \<noteq> 0 \<and> h \<noteq> 0"
  using assms
  by (auto simp: render_compute_projection_timewarp_def bind_err_Inr_iff Let_def vk_cmd_defs
      new_calls_def split: if_splits dest!: update_compute_shared_descriptor_set_Inr(1))

lemma render_compute_projection_calls:
  assumes "render_compute_projection L render vk ss sv rects ti tiv views = Inr vk'"
    and "rc_r render = Some r"
  shows "\<exists>ws w h. new_calls vk vk' =
           [Call_vk_cmd_image_barrier_gpu_locked (r_cmd r) ti {} {VK_ACCESS_SHADER_WRITE_BIT}
              VK_IMAGE_LAYOUT_UNDEFINED VK_IMAGE_LAYOUT_GENERAL color_subresource_range,
            Call_vkUpdateDescriptorSets ws,
            Call_vkCmdBindPipeline (r_cmd r) VK_PIPELINE_BIND_POINT_COMPUTE
              (r_compute_distortion_pipeline r),
            Call_vkCmdBindDescriptorSets (r_cmd r) VK_PIPELINE_BIND_POINT_COMPUTE
              (r_compute_distortion_pipeline_layout r) 0 [rc_shared_descriptor_set render] [],
            Call_vkCmdDispatch (r_cmd r) w h 2,
            Call_vkCmdPipelineBarrier (r_cmd r) {VK_PIPELINE_STAGE_COMPUTE_SHADER_BIT}
              {VK_PIPELINE_STAGE_TOP_OF_PIPE_BIT} 0 0 0
              [present_barrier ti color_subresource_range]]
          \<and> calc_dispatch_dims_views views (r_view_count r) = Inr (w, h) \<and> w \<noteq> 0 \<and> h \<noteq> 0"
  using assms
  by (auto simp: render_compute_projection_def bind_err_Inr_iff Let_def vk_cmd_defs
      new_calls_def split: if_splits dest!: update_compute_shared_descriptor_set_Inr(1))

lemma render_compute_clear_calls:
  assumes "render_compute_clear L render vk ti tiv views = Inr vk'"
    and "rc_r render = Some r"
  shows "\<exists>ws w h. new_calls vk vk' =
           [Call_vk_cmd_image_barrier_gpu_locked (r_cmd r) ti {} {VK_ACCESS_SHADER_WRITE_BIT}
              VK_IMAGE_LAYOUT_UNDEFINED VK_IMAGE_LAYOUT_GENERAL color_subresource_range,
            Call_vkUpdateDescriptorSets ws,
            Call_vkCmdBindPipeline (r_cmd r) VK_PIPELINE_BIND_POINT_COMPUTE
              (r_compute_clear_pipeline r),
            Call_vkCmdBindDescriptorSets (r_cmd r) VK_PIPELINE_BIND_POINT_COMPUTE
              (r_compute_distortion_pipeline_layout r) 0 [rc_shared_descriptor_set render] [],
            Call_vkCmdDispatch (r_cmd r) w h 2,
            Call_vkCmdPipelineBarrier (r_cmd r) {VK_PIPELINE_STAGE_COMPUTE_SHADER_BIT}
              {VK_PIPELINE_STAGE_TOP_OF_PIPE_BIT} 0 0 0
              [present_barrier ti color_subresource_range]]
          \<and> calc_dispatch_dims_views views (r_view_count r) = Inr (w, h) \<and> w \<noteq> 0 \<and> h \<noteq> 0"
  using assms
  by (auto simp: render_compute_clear_def bind_err_Inr_iff Let_def vk_cmd_defs
      new_calls_def split: if_splits dest!: update_compute_shared_descriptor_set_Inr(1))

text \<open>A pass whose context is not attached fails its first assertion.\<close>

lemma pass_attached:
  "render_compute_layers L render vk dset ubo ss sv n tiv view tw = Inr vk'
     \<Longrightarrow> \<exists>r. rc_r render = Some r"
  "render_compute_projection_timewarp L calc render vk ss sv rects sp sf np ti tiv views = Inr vk'
     \<Longrightarrow> \<exists>r. rc_r render = Some r"
  "render_compute_projection L render vk ss sv rects ti tiv views = Inr vk'
     \<Longrightarrow> \<exists>r. rc_r render = Some r"
  "render_compute_clear L render vk ti tiv views = Inr vk' \<Longrightarrow> \<exists>r. rc_r render = Some r"
  by (auto simp: render_compute_layers_def render_compute_projection_timewarp_def
      render_compute_projection_def render_compute_clear_def split: option.splits)

lemma pass_events_simps:
  "pass_events
     [Call_vk_cmd_image_barrier_gpu_locked cmd ti {} {VK_ACCESS_SHADER_WRITE_BIT}
        VK_IMAGE_LAYOUT_UNDEFINED VK_IMAGE_LAYOUT_GENERAL rg,
      Call_vkUpdateDescriptorSets ws,
      Call_vkCmdBindPipeline cmd bp pipeline,
      Call_vkCmdBindDescriptorSets cmd bp layout 0 sets [],
      Call_vkCmdDispatch cmd w h z,
      Call_vkCmdPipelineBarrier cmd ss ds 0 0 0 [present_barrier ti rg]]
   = [PreBarrier ti, Dispatch, PostBarrier ti]"
  "pass_events
     [Call_vkUpdateDescriptorSets ws,
      Call_vkCmdBindPipeline cmd bp pipeline,
      Call_vkCmdBindDescriptorSets cmd bp layout 0 sets [],
      Call_vkCmdDispatch cmd w h z]
   = [Dispatch]"
  by (simp_all add: pass_events_def present_barrier_def)

text \<open>
  Claim C4, as amended. Every call of the projection, timewarp and clear pass that returns
  has recorded, for its target image, the barrier from the undefined to the general layout
  strictly before its one dispatch and the barrier from the general to the presentation
  layout strictly after it. A layers pass that returns has recorded exactly four calls, in
  this order: the descriptor update, the pipeline bind, the descriptor-set bind and the
  dispatch. None of them is a barrier of any shape: the function is given no target image.
\<close>

theorem pass_barriers_bracket_dispatch:
  "(render_compute_projection_timewarp L calc render vk ss sv rects sp sf np ti tiv views
      = Inr vk1 \<longrightarrow> barriers_bracket_dispatch ti (new_calls vk vk1))
   \<and> (render_compute_projection L render vk ss sv rects ti tiv views = Inr vk2
        \<longrightarrow> barriers_bracket_dispatch ti (new_calls vk vk2))
   \<and> (render_compute_clear L render vk ti tiv views = Inr vk3
        \<longrightarrow> barriers_bracket_dispatch ti (new_calls vk vk3))
   \<and> (render_compute_layers L render vk dset ubo lss lsv n tiv view tw = Inr vk4
        \<longrightarrow> pass_events (new_calls vk vk4) = [Dispatch])
   \<and> (render_compute_layers L render vk dset ubo lss lsv n tiv view tw = Inr vk4
        \<longrightarrow> filter is_barrier_call (new_calls vk vk4) = [])
   \<and> (render_compute_layers L render vk dset ubo lss lsv n tiv view tw = Inr vk4
        \<and> rc_r render = Some r
        \<longrightarrow> (\<exists>ws w h. new_calls vk vk4 =
               [Call_vkUpdateDescriptorSets ws,
                Call_vkCmdBindPipeline (r_cmd r) VK_PIPELINE_BIND_POINT_COMPUTE
                  (if tw then r_compute_layer_timewarp_pipeline r
                   else r_compute_layer_non_timewarp_pipeline r),
                Call_vkCmdBindDescriptorSets (r_cmd r) VK_PIPELINE_BIND_POINT_COMPUTE
                  (r_compute_layer_pipeline_layout r) 0 [dset] [],
                Call_vkCmdDispatch (r_cmd r) w h 1]))"
proof (intro conjI impI)
  assume run: "render_compute_projection_timewarp L calc render vk ss sv rects sp sf np ti tiv
                 views = Inr vk1"
  from pass_attached(2) [OF run] obtain r where "rc_r render = Some r" ..
  from render_compute_projection_timewarp_calls [OF run this]
  show "barriers_bracket_dispatch ti (new_calls vk vk1)"
    by (auto simp: barriers_bracket_dispatch_def pass_events_simps)
next
  assume run: "render_compute_projection L render vk ss sv rects ti tiv views = Inr vk2"
  from pass_attached(3) [OF run] obtain r where "rc_r render = Some r" ..
  from render_compute_projection_calls [OF run this]
  show "barriers_bracket_dispatch ti (new_calls vk vk2)"
    by (auto simp: barriers_bracket_dispatch_def pass_events_simps)
next
  assume run: "render_compute_clear L render vk ti tiv views = Inr vk3"
  from pass_attached(4) [OF run] obtain r where "rc_r render = Some r" ..
  from render_compute_clear_calls [OF run this]
  show "barriers_bracket_dispatch ti (new_calls vk vk3)"
    by (auto simp: barriers_bracket_dispatch_def pass_events_simps)
next
  assume run: "render_compute_layers L render vk dset ubo lss lsv n tiv view tw = Inr vk4"
  from pass_attached(1) [OF run] obtain r where "rc_r render = Some r" ..
  from render_compute_layers_calls [OF run this]
  show "pass_events (new_calls vk vk4) = [Dispatch]"
    by (auto simp: pass_events_simps)
next
  assume run: "render_compute_layers L render vk dset ubo lss lsv n tiv view tw = Inr vk4"
  from pass_attached(1) [OF run] obtain r where "rc_r render = Some r" ..
  from render_compute_layers_calls [OF run this]
  show "filter is_barrier_call (new_calls vk vk4) = []"
    by auto
next
  assume "render_compute_layers L render vk dset ubo lss lsv n tiv view tw = Inr vk4
        \<and> rc_r render = Some r"
  then have run: "render_compute_layers L render vk dset ubo lss lsv n tiv view tw = Inr vk4"
    and r: "rc_r render = Some r" by simp_all
  from render_compute_layers_calls [OF run r]
  show "\<exists>ws w h. new_calls vk vk4 =
               [Call_vkUpdateDescriptorSets ws,
                Call_vkCmdBindPipeline (r_cmd r) VK_PIPELINE_BIND_POINT_COMPUTE
                  (if tw then r_compute_layer_timewarp_pipeline r
                   else r_compute_layer_non_timewarp_pipeline r),
                Call_vkCmdBindDescriptorSets (r_cmd r) VK_PIPELINE_BIND_POINT_COMPUTE
                  (r_compute_layer_pipeline_layout r) 0 [dset] [],
                Call_vkCmdDispatch (r_cmd r) w h 1]"
    by blast
qed

lemma runs_return:
  "run_layers = Inr (projr run_layers)"
  "run_timewarp = Inr (projr run_timewarp)"
  "run_projection = Inr (projr run_projection)"
  "run_clear = Inr (projr run_clear)"
proof -
  have "\<not> isl run_layers" "\<not> isl run_timewarp" "\<not> isl run_projection" "\<not> isl run_clear"
    by code_simp+
  then show "run_layers = Inr (projr run_layers)" "run_timewarp = Inr (projr run_timewarp)"
    "run_projection = Inr (projr run_projection)" "run_clear = Inr (projr run_clear)"
    by simp_all
qed

theorem pass_barriers_bracket_dispatch_witness:
  "run_timewarp = Inr (projr run_timewarp)
   \<and> barriers_bracket_dispatch 200 (new_calls vk0 (projr run_timewarp))
   \<and> run_projection = Inr (projr run_projection)
   \<and> barriers_bracket_dispatch 200 (new_calls vk0 (projr run_projection))
   \<and> run_clear = Inr (projr run_clear)
   \<and> barriers_bracket_dispatch 200 (new_calls vk0 (projr run_clear))
   \<and> run_layers = Inr (projr run_layers)
   \<and> rc_r render1 = Some r0
   \<and> pass_events (new_calls vk0 (projr run_layers)) = [Dispatch]
   \<and> filter is_barrier_call (new_calls vk0 (projr run_layers)) = []
   \<and> (\<exists>ws w h. new_calls vk0 (projr run_layers) =
         [Call_vkUpdateDescriptorSets ws,
          Call_vkCmdBindPipeline 100 VK_PIPELINE_BIND_POINT_COMPUTE 111,
          Call_vkCmdBindDescriptorSets 100 VK_PIPELINE_BIND_POINT_COMPUTE 113 0 [1] [],
          Call_vkCmdDispatch 100 w h 1])"
proof -
  note t = pass_barriers_bracket_dispatch [where L = L0 and calc = calc0 and render = render1
      and vk = vk0 and ss = "[300, 301]" and sv = "[302, 303]" and rects = "[rect0, rect0]"
      and sp = "[1, 2]" and sf = "[3, 4]" and np = "[5, 6]" and ti = 200 and tiv = 201
      and views = views0 and ?vk1.0 = "projr run_timewarp" and ?vk2.0 = "projr run_projection"
      and ?vk3.0 = "projr run_clear" and dset = 1 and ubo = 400 and lss = "[300, 301]"
      and lsv = "[302, 303]" and n = 2 and view = "hd views0" and tw = True
      and ?vk4.0 = "projr run_layers" and r = r0]
  have r: "rc_r render1 = Some r0" by (simp add: render1_def)
  have sel: "r_cmd r0 = 100" "r_compute_layer_timewarp_pipeline r0 = 111"
    "r_compute_layer_pipeline_layout r0 = 113"
    by (simp_all add: r0_def)
  from t runs_return r sel show ?thesis
    by (simp add: run_timewarp_def run_projection_def run_clear_def run_layers_def)
qed

text \<open>
  Claim C4 as stated fails for the layers pass: a run of it on a viewport of 1920 by 1080
  returns, and among the calls it recorded there is no barrier for any image, before or
  after the dispatch.
\<close>

theorem layers_pass_no_barrier_counterexample:
  "run_layers = Inr (projr run_layers)
   \<and> pass_events (new_calls vk0 (projr run_layers)) = [Dispatch]
   \<and> \<not> barriers_bracket_dispatch 201 (new_calls vk0 (projr run_layers))
   \<and> length (new_calls vk0 (projr run_layers)) = 4
   \<and> filter is_barrier_call (new_calls vk0 (projr run_layers)) = []"
proof -
  have "pass_events (new_calls vk0 (projr run_layers)) = [Dispatch]"
    and "length (new_calls vk0 (projr run_layers)) = 4"
    and "length (filter is_barrier_call (new_calls vk0 (projr run_layers))) = 0"
    by code_simp+
  then show ?thesis
    by (simp add: runs_return(1) [symmetric] barriers_bracket_dispatch_def)
qed


lemma dispatch_depths_simps:
  "dispatch_depths
     [Call_vk_cmd_image_barrier_gpu_locked cmd ti sa da ol nl rg,
      Call_vkUpdateDescriptorSets ws,
      Call_vkCmdBindPipeline cmd bp pipeline,
      Call_vkCmdBindDescriptorSets cmd bp layout 0 sets [],
      Call_vkCmdDispatch cmd w h z,
      Call_vkCmdPipelineBarrier cmd ss ds 0 0 0 bs]
   = [z]"
  "dispatch_depths
     [Call_vkUpdateDescriptorSets ws,
      Call_vkCmdBindPipeline cmd bp pipeline,
      Call_vkCmdBindDescriptorSets cmd bp layout 0 sets [],
      Call_vkCmdDispatch cmd w h z]
   = [z]"
  by (simp_all add: dispatch_depths_def)

text \<open>
  Claim C6. Every call of \<open>render_compute_layers\<close> that returns has recorded exactly one
  dispatch, with \<^verbatim>\<open>groupCountZ\<close> 1; every call of the timewarp, projection and clear
  pass that returns has recorded exactly one dispatch, with \<^verbatim>\<open>groupCountZ\<close> 2. The
  resources, and so the view count, are arbitrary.
\<close>

theorem pass_dispatch_depth:
  "(render_compute_layers L render vk dset ubo lss lsv n tiv view tw = Inr vk4
      \<longrightarrow> dispatch_depths (new_calls vk vk4) = [1])
   \<and> (render_compute_projection_timewarp L calc render vk ss sv rects sp sf np ti tiv views
        = Inr vk1 \<longrightarrow> dispatch_depths (new_calls vk vk1) = [2])
   \<and> (render_compute_projection L render vk ss sv rects ti tiv views = Inr vk2
        \<longrightarrow> dispatch_depths (new_calls vk vk2) = [2])
   \<and> (render_compute_clear L render vk ti tiv views = Inr vk3
        \<longrightarrow> dispatch_depths (new_calls vk vk3) = [2])"
proof (intro conjI impI)
  assume run: "render_compute_layers L render vk dset ubo lss lsv n tiv view tw = Inr vk4"
  from pass_attached(1) [OF run] obtain r where "rc_r render = Some r" ..
  from render_compute_layers_calls [OF run this]
  show "dispatch_depths (new_calls vk vk4) = [1]"
    by (auto simp: dispatch_depths_simps)
next
  assume run: "render_compute_projection_timewarp L calc render vk ss sv rects sp sf np ti tiv
                 views = Inr vk1"
  from pass_attached(2) [OF run] obtain r where "rc_r render = Some r" ..
  from render_compute_projection_timewarp_calls [OF run this]
  show "dispatch_depths (new_calls vk vk1) = [2]"
    by (auto simp: dispatch_depths_simps)
next
  assume run: "render_compute_projection L render vk ss sv rects ti tiv views = Inr vk2"
  from pass_attached(3) [OF run] obtain r where "rc_r render = Some r" ..
  from render_compute_projection_calls [OF run this]
  show "dispatch_depths (new_calls vk vk2) = [2]"
    by (auto simp: dispatch_depths_simps)
next
  assume run: "render_compute_clear L render vk ti tiv views = Inr vk3"
  from pass_attached(4) [OF run] obtain r where "rc_r render = Some r" ..
  from render_compute_clear_calls [OF run this]
  show "dispatch_depths (new_calls vk vk3) = [2]"
    by (auto simp: dispatch_depths_simps)
qed

theorem pass_dispatch_depth_witness:
  "run_layers = Inr (projr run_layers)
   \<and> dispatch_depths (new_calls vk0 (projr run_layers)) = [1]
   \<and> run_timewarp = Inr (projr run_timewarp)
   \<and> dispatch_depths (new_calls vk0 (projr run_timewarp)) = [2]
   \<and> run_projection = Inr (projr run_projection)
   \<and> dispatch_depths (new_calls vk0 (projr run_projection)) = [2]
   \<and> run_clear = Inr (projr run_clear)
   \<and> dispatch_depths (new_calls vk0 (projr run_clear)) = [2]"
  using pass_dispatch_depth [of L0 render1 vk0 1 400 "[300, 301]" "[302, 303]" 2 201
      "hd views0" True "projr run_layers" calc0 "[300, 301]" "[302, 303]" "[rect0, rect0]"
      "[1, 2]" "[3, 4]" "[5, 6]" 200 views0 "projr run_timewarp" "projr run_projection"
      "projr run_clear"]
    runs_return
  by (simp add: run_timewarp_def run_projection_def run_clear_def run_layers_def)




section \<open>The uniform data the passes write\<close>

lemma arr_get_Inr: "arr_get xs i = Inr v \<longleftrightarrow> unat i < length xs \<and> v = xs ! unat i"
  by (auto simp: arr_get_def)

lemma arr_set_Inr: "arr_set xs i v = Inr ys \<longleftrightarrow> unat i < length xs \<and> ys = xs[unat i := v]"
  by (auto simp: arr_set_def)

lemma arr_get_init_Inr:
  "arr_get_init xs i = Inr v \<longleftrightarrow> unat i < length xs \<and> xs ! unat i = Some v"
  by (auto simp: arr_get_init_def split: option.splits)

lemmas ubo_set_defs = set_views_def set_pre_transforms_def set_transforms_def
  set_post_transforms_def

lemma time_warp_loop:
  assumes "for_loop n
             (\<lambda>i time_warp_matrix.
                bind_err (arr_get src_poses i) (\<lambda>src_pose.
                bind_err (arr_get src_fovs i) (\<lambda>src_fov.
                bind_err (arr_get new_poses i) (\<lambda>new_pose.
                arr_set time_warp_matrix i
                  (Some ((calc :: 'p \<Rightarrow> 'f \<Rightarrow> 'p \<Rightarrow> xrt_matrix_4x4) src_pose src_fov new_pose))))))
             0 tw0 = Inr tw"
    and "k < unat n"
  shows "k < length tw \<and> tw ! k = Some (calc (src_poses ! k) (src_fovs ! k) (new_poses ! k))"
proof -
  let ?I = "\<lambda>(j :: u32) s. \<forall>k<unat j. k < length s
              \<and> s ! k = Some (calc (src_poses ! k) (src_fovs ! k) (new_poses ! k))"
  have "?I n tw"
  proof (rule for_loop_inv [OF assms(1), where I = ?I])
    show "(0 :: u32) \<le> n" by simp
    show "?I 0 tw0" by simp
  next
    fix j :: u32 and t t' :: "xrt_matrix_4x4 option list"
    assume lt: "j < n" and I: "?I j t"
      and b: "bind_err (arr_get src_poses j) (\<lambda>src_pose.
                bind_err (arr_get src_fovs j) (\<lambda>src_fov.
                bind_err (arr_get new_poses j) (\<lambda>new_pose.
                arr_set t j (Some (calc src_pose src_fov new_pose))))) = Inr t'"
    from lt have suc: "unat (j + 1) = Suc (unat j)" by (rule unat_inc)
    from b have jl: "unat j < length t"
      and t': "t' = t[unat j := Some (calc (src_poses ! unat j) (src_fovs ! unat j)
                        (new_poses ! unat j))]"
      by (auto simp: bind_err_Inr_iff arr_get_Inr arr_set_Inr)
    show "?I (j + 1) t'"
      using I jl by (auto simp: suc t' less_Suc_eq nth_list_update)
  qed
  with assms(2) show ?thesis by simp
qed

lemma timewarp_ubo_loop:
  assumes "for_loop n
             (\<lambda>i data.
                bind_err (arr_get views i) (\<lambda>v.
                bind_err (set_views data i v) (\<lambda>data.
                bind_err (arr_get uv i) (\<lambda>v.
                bind_err (set_pre_transforms data i v) (\<lambda>data.
                bind_err (arr_get_init tw i) (\<lambda>v.
                bind_err (set_transforms data i v) (\<lambda>data.
                bind_err (arr_get rects i) (\<lambda>v.
                set_post_transforms data i v))))))))
             0 d0 = Inr d"
    and "k < unat n"
  shows "ubo_views d ! k = views ! k \<and> ubo_pre_transforms d ! k = uv ! k
       \<and> Some (ubo_transforms d ! k) = tw ! k \<and> ubo_post_transforms d ! k = rects ! k"
proof -
  let ?I = "\<lambda>(j :: u32) s. \<forall>k<unat j.
      ubo_views s ! k = views ! k \<and> ubo_pre_transforms s ! k = uv ! k
      \<and> Some (ubo_transforms s ! k) = tw ! k \<and> ubo_post_transforms s ! k = rects ! k"
  have "?I n d"
  proof (rule for_loop_inv [OF assms(1), where I = ?I])
    show "(0 :: u32) \<le> n" by simp
    show "?I 0 d0" by simp
  next
    fix j :: u32 and t t' :: render_compute_distortion_ubo_data
    assume lt: "j < n" and I: "?I j t"
      and b: "bind_err (arr_get views j) (\<lambda>v.
                bind_err (set_views t j v) (\<lambda>data.
                bind_err (arr_get uv j) (\<lambda>v.
                bind_err (set_pre_transforms data j v) (\<lambda>data.
                bind_err (arr_get_init tw j) (\<lambda>v.
                bind_err (set_transforms data j v) (\<lambda>data.
                bind_err (arr_get rects j) (\<lambda>v.
                set_post_transforms data j v))))))) = Inr t'"
    from lt have suc: "unat (j + 1) = Suc (unat j)" by (rule unat_inc)
    from b obtain m where m: "tw ! unat j = Some m"
      and l: "unat j < length (ubo_views t)" "unat j < length (ubo_pre_transforms t)"
        "unat j < length (ubo_transforms t)" "unat j < length (ubo_post_transforms t)"
      and t': "t' = t\<lparr>ubo_views := (ubo_views t)[unat j := views ! unat j],
                      ubo_pre_transforms := (ubo_pre_transforms t)[unat j := uv ! unat j],
                      ubo_transforms := (ubo_transforms t)[unat j := m],
                      ubo_post_transforms := (ubo_post_transforms t)[unat j := rects ! unat j]\<rparr>"
      by (auto simp: bind_err_Inr_iff arr_get_Inr arr_set_Inr arr_get_init_Inr ubo_set_defs)
    show "?I (j + 1) t'"
      using I l m by (auto simp: suc t' less_Suc_eq nth_list_update)
  qed
  with assms(2) show ?thesis by simp
qed

lemma projection_ubo_loop:
  assumes "for_loop n
             (\<lambda>i data.
                bind_err (arr_get views i) (\<lambda>v.
                bind_err (set_views data i v) (\<lambda>data.
                bind_err (arr_get rects i) (\<lambda>v.
                set_post_transforms data i v))))
             0 d0 = Inr d"
  shows "\<forall>k<unat n. ubo_views d ! k = views ! k \<and> ubo_post_transforms d ! k = rects ! k"
    and "ubo_pre_transforms d = ubo_pre_transforms d0"
    and "ubo_transforms d = ubo_transforms d0"
proof -
  let ?I = "\<lambda>(j :: u32) s.
      (\<forall>k<unat j. ubo_views s ! k = views ! k \<and> ubo_post_transforms s ! k = rects ! k)
      \<and> ubo_pre_transforms s = ubo_pre_transforms d0 \<and> ubo_transforms s = ubo_transforms d0"
  have "?I n d"
  proof (rule for_loop_inv [OF assms(1), where I = ?I])
    show "(0 :: u32) \<le> n" by simp
    show "?I 0 d0" by simp
  next
    fix j :: u32 and t t' :: render_compute_distortion_ubo_data
    assume lt: "j < n" and I: "?I j t"
      and b: "bind_err (arr_get views j) (\<lambda>v.
                bind_err (set_views t j v) (\<lambda>data.
                bind_err (arr_get rects j) (\<lambda>v.
                set_post_transforms data j v))) = Inr t'"
    from lt have suc: "unat (j + 1) = Suc (unat j)" by (rule unat_inc)
    from b have l: "unat j < length (ubo_views t)" "unat j < length (ubo_post_transforms t)"
      and t': "t' = t\<lparr>ubo_views := (ubo_views t)[unat j := views ! unat j],
                      ubo_post_transforms := (ubo_post_transforms t)[unat j := rects ! unat j]\<rparr>"
      by (auto simp: bind_err_Inr_iff arr_get_Inr arr_set_Inr ubo_set_defs)
    show "?I (j + 1) t'"
      using I l by (auto simp: suc t' less_Suc_eq nth_list_update)
  qed
  then show "\<forall>k<unat n. ubo_views d ! k = views ! k \<and> ubo_post_transforms d ! k = rects ! k"
    and "ubo_pre_transforms d = ubo_pre_transforms d0"
    and "ubo_transforms d = ubo_transforms d0"
    by simp_all
qed

lemma clear_ubo_loop:
  assumes "for_loop n (\<lambda>i data. bind_err (arr_get views i) (\<lambda>v. set_views data i v)) 0 d0
             = Inr d"
    and "k < unat n"
  shows "ubo_views d ! k = views ! k"
proof -
  let ?I = "\<lambda>(j :: u32) s. \<forall>k<unat j. ubo_views s ! k = views ! k"
  have "?I n d"
  proof (rule for_loop_inv [OF assms(1), where I = ?I])
    show "(0 :: u32) \<le> n" by simp
    show "?I 0 d0" by simp
  next
    fix j :: u32 and t t' :: render_compute_distortion_ubo_data
    assume lt: "j < n" and I: "?I j t"
      and b: "bind_err (arr_get views j) (\<lambda>v. set_views t j v) = Inr t'"
    from lt have suc: "unat (j + 1) = Suc (unat j)" by (rule unat_inc)
    from b have l: "unat j < length (ubo_views t)"
      and t': "t' = t\<lparr>ubo_views := (ubo_views t)[unat j := views ! unat j]\<rparr>"
      by (auto simp: bind_err_Inr_iff arr_get_Inr arr_set_Inr ubo_set_defs)
    show "?I (j + 1) t'"
      using I l by (auto simp: suc t' less_Suc_eq nth_list_update)
  qed
  with assms(2) show ?thesis by simp
qed

text \<open>The mapped memory after a pass: only the uniform data of the pass has changed.\<close>

lemma render_compute_projection_timewarp_mapped:
  assumes "render_compute_projection_timewarp L calc render vk ss sv rects sp sf np ti tiv views
             = Inr vk'"
    and "rc_r render = Some r"
  shows "\<exists>tw d.
      for_loop (r_view_count r)
        (\<lambda>i time_warp_matrix.
           bind_err (arr_get sp i) (\<lambda>src_pose.
           bind_err (arr_get sf i) (\<lambda>src_fov.
           bind_err (arr_get np i) (\<lambda>new_pose.
           arr_set time_warp_matrix i (Some (calc src_pose src_fov new_pose))))))
        0 (replicate (unat (XRT_MAX_VIEWS L)) None) = Inr tw
      \<and> for_loop (r_view_count r)
          (\<lambda>i data.
             bind_err (arr_get views i) (\<lambda>v.
             bind_err (set_views data i v) (\<lambda>data.
             bind_err (arr_get (r_distortion_uv_to_tanangle r) i) (\<lambda>v.
             bind_err (set_pre_transforms data i v) (\<lambda>data.
             bind_err (arr_get_init tw i) (\<lambda>v.
             bind_err (set_transforms data i v) (\<lambda>data.
             bind_err (arr_get rects i) (\<lambda>v.
             set_post_transforms data i v))))))))
          0 (vk_mapped vk (r_compute_distortion_ubo_mapped r)) = Inr d
      \<and> vk_mapped vk' = (vk_mapped vk)(r_compute_distortion_ubo_mapped r := d)"
  using assms
  by (auto simp: render_compute_projection_timewarp_def bind_err_Inr_iff Let_def vk_cmd_defs
      split: if_splits dest!: update_compute_shared_descriptor_set_Inr(2))

lemma render_compute_projection_mapped:
  assumes "render_compute_projection L render vk ss sv rects ti tiv views = Inr vk'"
    and "rc_r render = Some r"
  shows "\<exists>d.
      for_loop (r_view_count r)
        (\<lambda>i data.
           bind_err (arr_get views i) (\<lambda>v.
           bind_err (set_views data i v) (\<lambda>data.
           bind_err (arr_get rects i) (\<lambda>v.
           set_post_transforms data i v))))
        0 (vk_mapped vk (r_compute_distortion_ubo_mapped r)) = Inr d
      \<and> vk_mapped vk' = (vk_mapped vk)(r_compute_distortion_ubo_mapped r := d)"
  using assms
  by (auto simp: render_compute_projection_def bind_err_Inr_iff Let_def vk_cmd_defs
      split: if_splits dest!: update_compute_shared_descriptor_set_Inr(2))

lemma render_compute_clear_mapped:
  assumes "render_compute_clear L render vk ti tiv views = Inr vk'"
    and "rc_r render = Some r"
  shows "\<exists>d.
      for_loop (r_view_count r)
        (\<lambda>i data. bind_err (arr_get views i) (\<lambda>v. set_views data i v))
        0 (vk_mapped vk (r_compute_clear_ubo_mapped r)) = Inr d
      \<and> vk_mapped vk' = (vk_mapped vk)(r_compute_clear_ubo_mapped r := d)"
  using assms
  by (auto simp: render_compute_clear_def bind_err_Inr_iff Let_def vk_cmd_defs
      split: if_splits dest!: update_compute_shared_descriptor_set_Inr(2))

text \<open>
  Claim C7, as amended. A timewarp pass that returns has written, for every view \<open>i\<close> below
  the view count, all four fields of the distortion uniform data: the viewport, the
  pre-transform of the resources, the time warp matrix computed from the poses and the field
  of view of that view, and the post-transform. A projection pass that returns has written
  the viewport and the post-transform of every such view and has left the pre-transforms and
  the 4x4 transforms as they were before the call. A clear pass that returns has written the
  viewport of every such view into the uniform data of the clear pass.
\<close>

theorem ubo_fields_written:
  "(render_compute_projection_timewarp L calc render vk ss sv rects sp sf np ti tiv views
      = Inr vk1 \<and> rc_r render = Some r \<and> i < unat (r_view_count r) \<longrightarrow>
      ubo_views (vk_mapped vk1 (r_compute_distortion_ubo_mapped r)) ! i = views ! i
      \<and> ubo_pre_transforms (vk_mapped vk1 (r_compute_distortion_ubo_mapped r)) ! i
          = r_distortion_uv_to_tanangle r ! i
      \<and> ubo_transforms (vk_mapped vk1 (r_compute_distortion_ubo_mapped r)) ! i
          = calc (sp ! i) (sf ! i) (np ! i)
      \<and> ubo_post_transforms (vk_mapped vk1 (r_compute_distortion_ubo_mapped r)) ! i
          = rects ! i)
   \<and> (render_compute_projection L render vk ss sv rects ti tiv views = Inr vk2
        \<and> rc_r render = Some r \<and> i < unat (r_view_count r) \<longrightarrow>
      ubo_views (vk_mapped vk2 (r_compute_distortion_ubo_mapped r)) ! i = views ! i
      \<and> ubo_post_transforms (vk_mapped vk2 (r_compute_distortion_ubo_mapped r)) ! i
          = rects ! i
      \<and> ubo_pre_transforms (vk_mapped vk2 (r_compute_distortion_ubo_mapped r))
          = ubo_pre_transforms (vk_mapped vk (r_compute_distortion_ubo_mapped r))
      \<and> ubo_transforms (vk_mapped vk2 (r_compute_distortion_ubo_mapped r))
          = ubo_transforms (vk_mapped vk (r_compute_distortion_ubo_mapped r)))
   \<and> (render_compute_clear L render vk ti tiv views = Inr vk3
        \<and> rc_r render = Some r \<and> i < unat (r_view_count r) \<longrightarrow>
      ubo_views (vk_mapped vk3 (r_compute_clear_ubo_mapped r)) ! i = views ! i)"
proof (intro conjI impI)
  assume a: "render_compute_projection_timewarp L calc render vk ss sv rects sp sf np ti tiv
      views = Inr vk1 \<and> rc_r render = Some r \<and> i < unat (r_view_count r)"
  let ?d = "vk_mapped vk1 (r_compute_distortion_ubo_mapped r)"
  from a render_compute_projection_timewarp_mapped [of L calc render vk ss sv rects sp sf np
      ti tiv views vk1 r]
  obtain tw d where tw: "for_loop (r_view_count r)
        (\<lambda>i time_warp_matrix.
           bind_err (arr_get sp i) (\<lambda>src_pose.
           bind_err (arr_get sf i) (\<lambda>src_fov.
           bind_err (arr_get np i) (\<lambda>new_pose.
           arr_set time_warp_matrix i (Some (calc src_pose src_fov new_pose))))))
        0 (replicate (unat (XRT_MAX_VIEWS L)) None) = Inr tw"
    and d: "for_loop (r_view_count r)
          (\<lambda>i data.
             bind_err (arr_get views i) (\<lambda>v.
             bind_err (set_views data i v) (\<lambda>data.
             bind_err (arr_get (r_distortion_uv_to_tanangle r) i) (\<lambda>v.
             bind_err (set_pre_transforms data i v) (\<lambda>data.
             bind_err (arr_get_init tw i) (\<lambda>v.
             bind_err (set_transforms data i v) (\<lambda>data.
             bind_err (arr_get rects i) (\<lambda>v.
             set_post_transforms data i v))))))))
          0 (vk_mapped vk (r_compute_distortion_ubo_mapped r)) = Inr d"
    and m: "vk_mapped vk1 = (vk_mapped vk)(r_compute_distortion_ubo_mapped r := d)"
    by blast
  from a have i: "i < unat (r_view_count r)" by simp
  from m have dd: "?d = d" by simp
  note f = timewarp_ubo_loop [OF d i] time_warp_loop [OF tw i]
  show "ubo_views ?d ! i = views ! i"
    and "ubo_pre_transforms ?d ! i = r_distortion_uv_to_tanangle r ! i"
    and "ubo_transforms ?d ! i = calc (sp ! i) (sf ! i) (np ! i)"
    and "ubo_post_transforms ?d ! i = rects ! i"
    using f by (simp_all add: dd)
next
  assume a: "render_compute_projection L render vk ss sv rects ti tiv views = Inr vk2
        \<and> rc_r render = Some r \<and> i < unat (r_view_count r)"
  let ?d = "vk_mapped vk2 (r_compute_distortion_ubo_mapped r)"
  from a render_compute_projection_mapped [of L render vk ss sv rects ti tiv views vk2 r]
  obtain d where d: "for_loop (r_view_count r)
        (\<lambda>i data.
           bind_err (arr_get views i) (\<lambda>v.
           bind_err (set_views data i v) (\<lambda>data.
           bind_err (arr_get rects i) (\<lambda>v.
           set_post_transforms data i v))))
        0 (vk_mapped vk (r_compute_distortion_ubo_mapped r)) = Inr d"
    and m: "vk_mapped vk2 = (vk_mapped vk)(r_compute_distortion_ubo_mapped r := d)"
    by blast
  from a have i: "i < unat (r_view_count r)" by simp
  from m have dd: "?d = d" by simp
  note f = projection_ubo_loop [OF d]
  show "ubo_views ?d ! i = views ! i"
    and "ubo_post_transforms ?d ! i = rects ! i"
    and "ubo_pre_transforms ?d = ubo_pre_transforms (vk_mapped vk (r_compute_distortion_ubo_mapped r))"
    and "ubo_transforms ?d = ubo_transforms (vk_mapped vk (r_compute_distortion_ubo_mapped r))"
    using f i by (simp_all add: dd)
next
  assume a: "render_compute_clear L render vk ti tiv views = Inr vk3
        \<and> rc_r render = Some r \<and> i < unat (r_view_count r)"
  let ?d = "vk_mapped vk3 (r_compute_clear_ubo_mapped r)"
  from a render_compute_clear_mapped [of L render vk ti tiv views vk3 r]
  obtain d where d: "for_loop (r_view_count r)
        (\<lambda>i data. bind_err (arr_get views i) (\<lambda>v. set_views data i v))
        0 (vk_mapped vk (r_compute_clear_ubo_mapped r)) = Inr d"
    and m: "vk_mapped vk3 = (vk_mapped vk)(r_compute_clear_ubo_mapped r := d)"
    by blast
  from a have i: "i < unat (r_view_count r)" by simp
  from m have dd: "?d = d" by simp
  show "ubo_views ?d ! i = views ! i"
    using clear_ubo_loop [OF d i] by (simp add: dd)
qed

theorem ubo_fields_written_witness:
  "run_timewarp = Inr (projr run_timewarp) \<and> rc_r render1 = Some r0
   \<and> (1 :: nat) < unat (r_view_count r0)
   \<and> ubo_views (vk_mapped (projr run_timewarp) 121) ! 1 = views0 ! 1
   \<and> ubo_transforms (vk_mapped (projr run_timewarp) 121) ! 1 = calc0 2 4 6
   \<and> run_projection = Inr (projr run_projection)
   \<and> ubo_views (vk_mapped (projr run_projection) 121) ! 1 = views0 ! 1
   \<and> ubo_transforms (vk_mapped (projr run_projection) 121) = ubo_transforms ubo0
   \<and> run_clear = Inr (projr run_clear)
   \<and> ubo_views (vk_mapped (projr run_clear) 131) ! 1 = views0 ! 1"
proof -
  note w = ubo_fields_written [of L0 calc0 render1 vk0 "[300, 301]" "[302, 303]"
      "[rect0, rect0]" "[1, 2]" "[3, 4]" "[5, 6]" 200 201 views0 "projr run_timewarp" r0 1
      "projr run_projection" "projr run_clear"]
  have r: "rc_r render1 = Some r0" "(1 :: nat) < unat (r_view_count r0)"
    "r_compute_distortion_ubo_mapped r0 = 121" "r_compute_clear_ubo_mapped r0 = 131"
    "vk_mapped vk0 121 = ubo0"
    by (simp_all add: render1_def r0_def vk0_def)
  from w runs_return r show ?thesis
    by (simp add: run_timewarp_def run_projection_def run_clear_def)
qed

text \<open>
  Claim C7 as stated fails for the projection pass: it returns with the 4x4 transform of
  view 0 still the one the uniform data held before the call, which is not the identity.
\<close>

theorem projection_keeps_transform_counterexample:
  "run_projection = Inr (projr run_projection)
   \<and> ubo_transforms (vk_mapped vk0 121) ! 0 = matrix_zero
   \<and> ubo_transforms (vk_mapped (projr run_projection) 121) ! 0 = matrix_zero
   \<and> ubo_transforms (vk_mapped (projr run_projection) 121) ! 0 \<noteq> math_matrix_4x4_identity"
proof -
  have "ubo_transforms (vk_mapped vk0 121) ! 0 = matrix_zero"
    and "ubo_transforms (vk_mapped (projr run_projection) 121) ! 0 = matrix_zero"
    and "ubo_transforms (vk_mapped (projr run_projection) 121) ! 0 \<noteq> math_matrix_4x4_identity"
    by code_simp+
  then show ?thesis by (simp add: runs_return(3) [symmetric])
qed

section \<open>The descriptor updates\<close>

lemma store_entries_apply:
  "store_entries m dset b k ds (dset', b', j) =
     (if dset' = dset \<and> b' = b \<and> k \<le> j \<and> j < k + length ds then Some (ds ! (j - k))
      else m (dset', b', j))"
proof (induction ds arbitrary: m k)
  case Nil
  then show ?case by auto
next
  case (Cons d ds)
  show ?case
    unfolding store_entries.simps Cons.IH
    by (auto simp: nth_Cons' Suc_diff_le)
qed

lemma read_infos_length: "read_infos xs n = Inr ys \<Longrightarrow> length ys = unat n"
  by (auto simp: read_infos_def split: if_splits)

lemma write_entries_length:
  "write_entries wr = Inr ds \<Longrightarrow> length ds = unat (wds_descriptorCount wr)"
  by (auto simp: write_entries_def bind_err_Inr_iff split: if_splits dest: read_infos_length)

text \<open>
  Two stores that receive the same writes: a slot that a write covers holds the same
  descriptor in both afterwards, and every other slot is as before in each.
\<close>

lemma write_descriptors_rel:
  assumes "write_descriptors m ws = Inr m'" and "write_descriptors n ws = Inr n'"
  shows "if \<exists>wr \<in> set ws. covered wr s then m' s = n' s \<and> m' s \<noteq> None
         else m' s = m s \<and> n' s = n s"
  using assms
proof (induction ws arbitrary: m n)
  case Nil
  then show ?case by simp
next
  case (Cons wr ws)
  obtain dset b j where s: "s = (dset, b, j)" by (cases s)
  from Cons.prems obtain ds
    where ds: "write_entries wr = Inr ds"
      and m1: "write_descriptors (store_entries m (wds_dstSet wr) (wds_dstBinding wr)
                 (unat (wds_dstArrayElement wr)) ds) ws = Inr m'"
      and n1: "write_descriptors (store_entries n (wds_dstSet wr) (wds_dstBinding wr)
                 (unat (wds_dstArrayElement wr)) ds) ws = Inr n'"
    by (auto simp: bind_err_Inr_iff)
  note len = write_entries_length [OF ds]
  note ih = Cons.IH [OF m1 n1]
  show ?case
  proof (cases "\<exists>wr' \<in> set ws. covered wr' s")
    case True
    then have c: "\<exists>wr' \<in> set (wr # ws). covered wr' s" by auto
    have r: "m' s = n' s \<and> m' s \<noteq> None" using ih unfolding if_P [OF True] .
    show ?thesis unfolding if_P [OF c] by (rule r)
  next
    case False
    let ?m1 = "store_entries m (wds_dstSet wr) (wds_dstBinding wr)
                 (unat (wds_dstArrayElement wr)) ds"
    let ?n1 = "store_entries n (wds_dstSet wr) (wds_dstBinding wr)
                 (unat (wds_dstArrayElement wr)) ds"
    have ih': "m' s = ?m1 s \<and> n' s = ?n1 s" using ih unfolding if_not_P [OF False] .
    show ?thesis
    proof (cases "covered wr s")
      case True
      then have c: "\<exists>wr' \<in> set (wr # ws). covered wr' s" by simp
      from True have "?m1 s = ?n1 s" and "?m1 s \<noteq> None"
        by (auto simp: s store_entries_apply covered_def len)
      with ih' have r: "m' s = n' s \<and> m' s \<noteq> None" by metis
      show ?thesis unfolding if_P [OF c] by (rule r)
    next
      case nc: False
      with False have c: "\<not> (\<exists>wr' \<in> set (wr # ws). covered wr' s)" by simp
      from nc have "?m1 s = m s" and "?n1 s = n s"
        by (auto simp: s store_entries_apply covered_def len)
      with ih' have r: "m' s = m s \<and> n' s = n s" by metis
      show ?thesis unfolding if_not_P [OF c] by (rule r)
    qed
  qed
qed

lemma update_compute_shared_descriptor_set_rel:
  assumes "update_compute_shared_descriptor_set L vk1 sb ss sv db ds dv tb tv ub ubuf usz dset vc
             = Inr vk1'"
    and "update_compute_shared_descriptor_set L vk2 sb ss sv db ds dv tb tv ub ubuf usz dset vc
             = Inr vk2'"
  shows "\<exists>ws. write_descriptors (vk_descriptors vk1) ws = Inr (vk_descriptors vk1')
      \<and> write_descriptors (vk_descriptors vk2) ws = Inr (vk_descriptors vk2')
      \<and> map (\<lambda>w. (wds_dstSet w, wds_dstBinding w, wds_dstArrayElement w, wds_descriptorCount w))
          ws = [(dset, sb, 0, vc), (dset, db, 0, 3 * vc), (dset, tb, 0, 1), (dset, ub, 0, 1)]"
  using assms
  by (auto simp: update_compute_shared_descriptor_set_def bind_err_Inr_iff Let_def
      dest!: vkUpdateDescriptorSets_Inr(3))

lemma covered_shared_slots:
  assumes "map (\<lambda>w. (wds_dstSet w, wds_dstBinding w, wds_dstArrayElement w,
                     wds_descriptorCount w)) ws
           = [(rc_shared_descriptor_set render, r_compute_src_binding r, 0, r_view_count r),
              (rc_shared_descriptor_set render, r_compute_distortion_binding r, 0,
               3 * r_view_count r),
              (rc_shared_descriptor_set render, r_compute_target_binding r, 0, 1),
              (rc_shared_descriptor_set render, r_compute_ubo_binding r, 0, 1)]"
  shows "(\<exists>wr \<in> set ws. covered wr s) \<longleftrightarrow> s \<in> set (shared_slots render r)"
proof -
  obtain dset b j where s: "s = (dset, b, j)" by (cases s)
  from assms obtain w1 w2 w3 w4 where ws: "ws = [w1, w2, w3, w4]"
    by (auto simp: map_eq_Cons_conv)
  with assms show ?thesis
    by (auto simp: s covered_def shared_slots_def)
qed


text \<open>
  The descriptor update of a projection pass: the arrays it is given do not depend on the
  driver state, and neither the calls before it nor the calls after it touch the
  descriptors.
\<close>

lemma render_compute_projection_update:
  assumes "render_compute_projection L render vk ss sv rects ti tiv views = Inr vk'"
    and "rc_r render = Some r"
  shows "\<exists>distortion_samplers vkm vku.
      for_loop (r_view_count r)
        (\<lambda>i distortion_samplers.
           fill_distortion_samplers distortion_samplers i (r_samplers_clamp_to_edge r))
        0 (replicate (3 * unat (XRT_MAX_VIEWS L)) None) = Inr distortion_samplers
      \<and> update_compute_shared_descriptor_set L vkm
          (r_compute_src_binding r) (map Some ss) (map Some sv)
          (r_compute_distortion_binding r) distortion_samplers
          (map Some (r_distortion_image_views r))
          (r_compute_target_binding r) tiv
          (r_compute_ubo_binding r) (r_compute_distortion_ubo_buffer r) VK_WHOLE_SIZE
          (rc_shared_descriptor_set render) (r_view_count r) = Inr vku
      \<and> vk_descriptors vkm = vk_descriptors vk
      \<and> vk_descriptors vk' = vk_descriptors vku"
  using assms
  apply (auto simp: render_compute_projection_def bind_err_Inr_iff Let_def vk_cmd_defs
      split: if_splits)
  subgoal for d dsamp vku w h
    by (rule exI, rule exI, rule conjI, assumption) simp
  done

lemma render_compute_projection_slots:
  assumes run1: "render_compute_projection L render vk1 ss sv rects ti tiv views = Inr vk1'"
    and run2: "render_compute_projection L render vk2 ss sv rects ti tiv views = Inr vk2'"
    and r: "rc_r render = Some r"
  shows "if s \<in> set (shared_slots render r)
         then vk_descriptors vk1' s = vk_descriptors vk2' s \<and> vk_descriptors vk1' s \<noteq> None
         else vk_descriptors vk1' s = vk_descriptors vk1 s
              \<and> vk_descriptors vk2' s = vk_descriptors vk2 s"
proof -
  from render_compute_projection_update [OF run1 r]
  obtain d1 vkm1 vku1 where
    f1: "for_loop (r_view_count r)
        (\<lambda>i distortion_samplers.
           fill_distortion_samplers distortion_samplers i (r_samplers_clamp_to_edge r))
        0 (replicate (3 * unat (XRT_MAX_VIEWS L)) None) = Inr d1"
    and u1: "update_compute_shared_descriptor_set L vkm1
          (r_compute_src_binding r) (map Some ss) (map Some sv)
          (r_compute_distortion_binding r) d1
          (map Some (r_distortion_image_views r))
          (r_compute_target_binding r) tiv
          (r_compute_ubo_binding r) (r_compute_distortion_ubo_buffer r) VK_WHOLE_SIZE
          (rc_shared_descriptor_set render) (r_view_count r) = Inr vku1"
    and e1: "vk_descriptors vkm1 = vk_descriptors vk1" "vk_descriptors vk1' = vk_descriptors vku1"
    by blast
  from render_compute_projection_update [OF run2 r]
  obtain d2 vkm2 vku2 where
    f2: "for_loop (r_view_count r)
        (\<lambda>i distortion_samplers.
           fill_distortion_samplers distortion_samplers i (r_samplers_clamp_to_edge r))
        0 (replicate (3 * unat (XRT_MAX_VIEWS L)) None) = Inr d2"
    and u2: "update_compute_shared_descriptor_set L vkm2
          (r_compute_src_binding r) (map Some ss) (map Some sv)
          (r_compute_distortion_binding r) d2
          (map Some (r_distortion_image_views r))
          (r_compute_target_binding r) tiv
          (r_compute_ubo_binding r) (r_compute_distortion_ubo_buffer r) VK_WHOLE_SIZE
          (rc_shared_descriptor_set render) (r_view_count r) = Inr vku2"
    and e2: "vk_descriptors vkm2 = vk_descriptors vk2" "vk_descriptors vk2' = vk_descriptors vku2"
    by blast
  from f1 f2 have "d2 = d1" by simp
  with u2 have u2': "update_compute_shared_descriptor_set L vkm2
          (r_compute_src_binding r) (map Some ss) (map Some sv)
          (r_compute_distortion_binding r) d1
          (map Some (r_distortion_image_views r))
          (r_compute_target_binding r) tiv
          (r_compute_ubo_binding r) (r_compute_distortion_ubo_buffer r) VK_WHOLE_SIZE
          (rc_shared_descriptor_set render) (r_view_count r) = Inr vku2"
    by simp
  from update_compute_shared_descriptor_set_rel [OF u1 u2',
      unfolded e1(1) e2(1) e1(2) [symmetric] e2(2) [symmetric]]
  obtain ws where w1: "write_descriptors (vk_descriptors vk1) ws = Inr (vk_descriptors vk1')"
    and w2: "write_descriptors (vk_descriptors vk2) ws = Inr (vk_descriptors vk2')"
    and shape: "map (\<lambda>w. (wds_dstSet w, wds_dstBinding w, wds_dstArrayElement w,
                     wds_descriptorCount w)) ws
           = [(rc_shared_descriptor_set render, r_compute_src_binding r, 0, r_view_count r),
              (rc_shared_descriptor_set render, r_compute_distortion_binding r, 0,
               3 * r_view_count r),
              (rc_shared_descriptor_set render, r_compute_target_binding r, 0, 1),
              (rc_shared_descriptor_set render, r_compute_ubo_binding r, 0, 1)]"
    by (elim exE conjE) (rule that, assumption+)
  from write_descriptors_rel [OF w1 w2, of s]
  show ?thesis unfolding covered_shared_slots [OF shape] .
qed

text \<open>A clear pass changes no descriptor outside the slots of the views in use.\<close>

lemma render_compute_clear_update:
  assumes "render_compute_clear L render vk ti tiv views = Inr vk'"
    and "rc_r render = Some r"
  shows "\<exists>src_samplers src_image_views distortion_samplers vkm vku.
      update_compute_shared_descriptor_set L vkm
          (r_compute_src_binding r) src_samplers src_image_views
          (r_compute_distortion_binding r) distortion_samplers
          (map Some (r_distortion_image_views r))
          (r_compute_target_binding r) tiv
          (r_compute_ubo_binding r) (r_compute_clear_ubo_buffer r) VK_WHOLE_SIZE
          (rc_shared_descriptor_set render) (r_view_count r) = Inr vku
      \<and> vk_descriptors vkm = vk_descriptors vk
      \<and> vk_descriptors vk' = vk_descriptors vku"
  using assms
  apply (auto simp: render_compute_clear_def bind_err_Inr_iff Let_def vk_cmd_defs
      split: if_splits)
  subgoal for tr d ssam simg dsamp vku w h
    by (rule exI, rule exI, rule exI, rule exI, rule exI, rule conjI, assumption) simp
  done

lemma render_compute_clear_frame:
  assumes run: "render_compute_clear L render vk ti tiv views = Inr vk'"
    and r: "rc_r render = Some r"
    and s: "s \<notin> set (shared_slots render r)"
  shows "vk_descriptors vk' s = vk_descriptors vk s"
proof -
  from render_compute_clear_update [OF run r]
  obtain ssam simg dsamp vkm vku where
    u: "update_compute_shared_descriptor_set L vkm
          (r_compute_src_binding r) ssam simg
          (r_compute_distortion_binding r) dsamp
          (map Some (r_distortion_image_views r))
          (r_compute_target_binding r) tiv
          (r_compute_ubo_binding r) (r_compute_clear_ubo_buffer r) VK_WHOLE_SIZE
          (rc_shared_descriptor_set render) (r_view_count r) = Inr vku"
    and e: "vk_descriptors vkm = vk_descriptors vk" "vk_descriptors vk' = vk_descriptors vku"
    by blast
  from update_compute_shared_descriptor_set_rel [OF u u, unfolded e(1) e(2) [symmetric]]
  obtain ws where w: "write_descriptors (vk_descriptors vk) ws = Inr (vk_descriptors vk')"
    and shape: "map (\<lambda>w. (wds_dstSet w, wds_dstBinding w, wds_dstArrayElement w,
                     wds_descriptorCount w)) ws
           = [(rc_shared_descriptor_set render, r_compute_src_binding r, 0, r_view_count r),
              (rc_shared_descriptor_set render, r_compute_distortion_binding r, 0,
               3 * r_view_count r),
              (rc_shared_descriptor_set render, r_compute_target_binding r, 0, 1),
              (rc_shared_descriptor_set render, r_compute_ubo_binding r, 0, 1)]"
    by (elim exE conjE) (rule that, assumption+)
  from write_descriptors_rel [OF w w, of s] s
  show ?thesis unfolding covered_shared_slots [OF shape] by simp
qed

text \<open>
  Claim C8. Two calls of \<open>render_compute_projection\<close> with the same context and the same
  arguments, on driver states that differ in any way (whatever was recorded or bound
  before), leave the same contents in the slots of the shared descriptor set that belong to
  the views in use: every source image, every distortion image, the target image and the
  uniform buffer. Each of these slots is bound afterwards, and the call changes no other
  slot. When the first state is what a clear pass has made of the second, the two calls leave
  the same descriptors in every slot: the clear pass has left nothing behind.
\<close>

theorem projection_bindings_independent_of_history:
  assumes "render_compute_projection L render vk1 ss sv rects ti tiv views = Inr vk1'"
    and "render_compute_projection L render vk2 ss sv rects ti tiv views = Inr vk2'"
    and "rc_r render = Some r"
  shows "shared_binding_contents vk1' render r = shared_binding_contents vk2' render r
       \<and> None \<notin> set (shared_binding_contents vk1' render r)
       \<and> (\<forall>s. s \<notin> set (shared_slots render r)
              \<longrightarrow> vk_descriptors vk1' s = vk_descriptors vk1 s)
       \<and> (render_compute_clear L render vk2 cti ctiv cviews = Inr vk1
              \<longrightarrow> vk_descriptors vk1' = vk_descriptors vk2')"
proof (intro conjI allI impI)
  note slots = render_compute_projection_slots [OF assms]
  show "shared_binding_contents vk1' render r = shared_binding_contents vk2' render r"
    unfolding shared_binding_contents_def
  proof (rule map_cong [OF refl])
    fix s assume "s \<in> set (shared_slots render r)"
    with slots [of s] show "vk_descriptors vk1' s = vk_descriptors vk2' s" by simp
  qed
  show "None \<notin> set (shared_binding_contents vk1' render r)"
  proof
    assume "None \<in> set (shared_binding_contents vk1' render r)"
    then obtain s where "s \<in> set (shared_slots render r)" and "vk_descriptors vk1' s = None"
      by (auto simp: shared_binding_contents_def)
    with slots [of s] show False by simp
  qed
  show "vk_descriptors vk1' s = vk_descriptors vk1 s" if "s \<notin> set (shared_slots render r)" for s
    using slots [of s] that by simp
  show "vk_descriptors vk1' = vk_descriptors vk2'"
    if clear: "render_compute_clear L render vk2 cti ctiv cviews = Inr vk1"
  proof (rule ext)
    fix s
    show "vk_descriptors vk1' s = vk_descriptors vk2' s"
    proof (cases "s \<in> set (shared_slots render r)")
      case True
      with slots [of s] show ?thesis by simp
    next
      case False
      with slots [of s] have "vk_descriptors vk1' s = vk_descriptors vk1 s"
        and "vk_descriptors vk2' s = vk_descriptors vk2 s" by simp_all
      moreover have "vk_descriptors vk1 s = vk_descriptors vk2 s"
        by (rule render_compute_clear_frame [OF clear assms(3) False])
      ultimately show ?thesis by simp
    qed
  qed
qed

lemma run_projection_after_clear_returns:
  "run_projection_after_clear = Inr (projr run_projection_after_clear)"
proof -
  have "\<not> isl run_projection_after_clear" by code_simp
  then show ?thesis by simp
qed

theorem projection_bindings_independent_of_history_witness:
  "run_clear = Inr (projr run_clear)
   \<and> run_projection_after_clear = Inr (projr run_projection_after_clear)
   \<and> run_projection = Inr (projr run_projection)
   \<and> rc_r render1 = Some r0
   \<and> shared_binding_contents (projr run_projection_after_clear) render1 r0
       = shared_binding_contents (projr run_projection) render1 r0
   \<and> shared_binding_contents (projr run_clear) render1 r0
       \<noteq> shared_binding_contents (projr run_projection) render1 r0
   \<and> length (shared_binding_contents (projr run_projection) render1 r0) = 10
   \<and> (4, 0, 5) \<notin> set (shared_slots render1 r0)
   \<and> vk_descriptors (projr run_projection_after_clear) (4, 0, 5)
       = vk_descriptors (projr run_clear) (4, 0, 5)
   \<and> vk_descriptors (projr run_projection_after_clear)
       = vk_descriptors (projr run_projection)"
proof -
  have r: "rc_r render1 = Some r0" by (simp add: render1_def)
  have out: "(4, 0, 5) \<notin> set (shared_slots render1 r0)" by code_simp
  have a: "render_compute_projection L0 render1 (projr run_clear) [300, 301] [302, 303]
             [rect0, rect0] 200 201 views0 = Inr (projr run_projection_after_clear)"
    using run_projection_after_clear_returns by (simp add: run_projection_after_clear_def)
  have b: "render_compute_projection L0 render1 vk0 [300, 301] [302, 303]
             [rect0, rect0] 200 201 views0 = Inr (projr run_projection)"
    using runs_return(3) by (simp add: run_projection_def)
  have "shared_binding_contents (projr run_clear) render1 r0
       \<noteq> shared_binding_contents (projr run_projection) render1 r0"
    and "length (shared_binding_contents (projr run_projection) render1 r0) = 10"
    by code_simp+
  moreover have c: "render_compute_clear L0 render1 vk0 200 201 views0 = Inr (projr run_clear)"
    using runs_return(4) by (simp add: run_clear_def)
  moreover note t = projection_bindings_independent_of_history [OF a b r, of 200 201 views0]
  moreover from t out
  have "vk_descriptors (projr run_projection_after_clear) (4, 0, 5)
       = vk_descriptors (projr run_clear) (4, 0, 5)"
    by blast
  ultimately show ?thesis
    using r out runs_return run_projection_after_clear_returns
    by simp
qed

text \<open>The source image infos of the layer shape: the loop fills the first \<open>n\<close> elements.\<close>

lemma layer_src_image_info_loop:
  assumes n: "unat n \<le> M" and ss: "unat n \<le> length src_samplers"
    and sv: "unat n \<le> length src_image_views"
  shows "for_loop n
          (\<lambda>i src_image_info.
             bind_err (arr_get src_samplers i) (\<lambda>sampler.
             bind_err (arr_get src_image_views i) (\<lambda>image_view.
             arr_set src_image_info i
               (Some \<lparr>dii_sampler = sampler, dii_imageView = image_view,
                      dii_imageLayout = VK_IMAGE_LAYOUT_SHADER_READ_ONLY_OPTIMAL\<rparr>))))
          0 (replicate M None)
         = Inr (map (\<lambda>i. Some (src_info src_samplers src_image_views i)) [0 ..< unat n]
                @ replicate (M - unat n) None)"
proof -
  let ?body = "\<lambda>i src_image_info.
             bind_err (arr_get src_samplers i) (\<lambda>sampler.
             bind_err (arr_get src_image_views i) (\<lambda>image_view.
             arr_set src_image_info i
               (Some \<lparr>dii_sampler = sampler, dii_imageView = image_view,
                      dii_imageLayout = VK_IMAGE_LAYOUT_SHADER_READ_ONLY_OPTIMAL\<rparr>)))"
  let ?f = "\<lambda>i. Some (src_info src_samplers src_image_views i)"
  let ?I = "\<lambda>(j :: u32) s. s = map ?f [0 ..< unat j] @ replicate (M - unat j) None"
  have "\<exists>s'. for_loop n ?body 0 (replicate M None) = Inr s' \<and> ?I n s'"
  proof (rule for_loop_total)
    show "(0 :: u32) \<le> n" by simp
    show "?I 0 (replicate M None)" by simp
  next
    fix j :: u32 and t :: "VkDescriptorImageInfo option list"
    assume lt: "j < n" and I: "?I j t"
    from lt have suc: "unat (j + 1) = Suc (unat j)" by (rule unat_inc)
    from lt have jn: "unat j < unat n" by (simp add: word_less_nat_alt)
    with n have jM: "unat j < M" by simp
    then have rep: "replicate (M - unat j) (None :: VkDescriptorImageInfo option)
                    = None # replicate (M - Suc (unat j)) None"
      by (simp add: Suc_diff_Suc replicate_Suc [symmetric] del: replicate_Suc)
    have len: "length t = M" using I jM by simp
    have upd: "t[unat j := ?f (unat j)] = map ?f [0 ..< Suc (unat j)]
                 @ replicate (M - Suc (unat j)) None"
      using I by (simp add: rep list_update_append)
    show "\<exists>t'. ?body j t = Inr t' \<and> ?I (j + 1) t'"
      using jn ss sv jM len upd
      by (simp add: bind_err_def arr_get_def arr_set_def suc src_info_def)
  qed
  then show ?thesis by simp
qed

lemma read_infos_filled:
  "read_infos (map (\<lambda>i. Some (f i)) [0 ..< k] @ replicate m None) (n :: u32)
     = (if unat n \<le> k then Inr (map f [0 ..< unat n])
        else if k + m < unat n then Inl OutOfBounds else Inl Indeterminate)"
proof (cases "unat n \<le> k")
  case True
  then have "take (unat n) (map (\<lambda>i. Some (f i)) [0 ..< k] @ replicate m None)
             = map (\<lambda>i. Some (f i)) [0 ..< unat n]"
    by (simp add: take_map)
  with True show ?thesis by (auto simp: read_infos_def comp_def)
next
  case False
  then show ?thesis by (auto simp: read_infos_def)
qed

text \<open>
  Claim C9. When the image count \<open>N\<close> does not exceed \<^verbatim>\<open>RENDER_MAX_IMAGES_SIZE\<close> (and
  the caller's arrays hold \<open>N\<close> elements), the layer-shape descriptor update returns after a
  single call of \<^verbatim>\<open>vkUpdateDescriptorSets\<close> with three writes: \<open>N\<close> combined
  image-sampler entries at the source binding (sampler \<open>i\<close> with image view \<open>i\<close>, in the
  read-only layout), one storage-image entry at the target binding and one uniform-buffer
  entry at the uniform binding, each starting at array element 0; the driver's descriptors
  after the call are the result of these three writes.
\<close>

theorem layer_descriptor_update_exact:
  assumes "image_count \<le> RENDER_MAX_IMAGES_SIZE L"
    and "unat image_count \<le> length src_samplers"
    and "unat image_count \<le> length src_image_views"
  shows "\<exists>vk' ws.
      update_compute_layer_descriptor_set L vk src_binding src_samplers src_image_views
        image_count target_binding target_image_view ubo_binding ubo_buffer ubo_size
        descriptor_set = Inr vk'
      \<and> new_calls vk vk' = [Call_vkUpdateDescriptorSets ws]
      \<and> map (\<lambda>w. (wds_dstSet w, wds_dstBinding w, wds_dstArrayElement w,
                   wds_descriptorCount w, wds_descriptorType w)) ws
          = [(descriptor_set, src_binding, 0, image_count,
              VK_DESCRIPTOR_TYPE_COMBINED_IMAGE_SAMPLER),
             (descriptor_set, target_binding, 0, 1, VK_DESCRIPTOR_TYPE_STORAGE_IMAGE),
             (descriptor_set, ubo_binding, 0, 1, VK_DESCRIPTOR_TYPE_UNIFORM_BUFFER)]
      \<and> map write_entries ws
          = [Inr (map (\<lambda>i. ImageDescriptor VK_DESCRIPTOR_TYPE_COMBINED_IMAGE_SAMPLER
                             (src_info src_samplers src_image_views i))
                    [0 ..< unat image_count]),
             Inr [ImageDescriptor VK_DESCRIPTOR_TYPE_STORAGE_IMAGE
                    \<lparr>dii_sampler = VK_NULL_HANDLE, dii_imageView = target_image_view,
                     dii_imageLayout = VK_IMAGE_LAYOUT_GENERAL\<rparr>],
             Inr [BufferDescriptor VK_DESCRIPTOR_TYPE_UNIFORM_BUFFER
                    \<lparr>dbi_buffer = ubo_buffer, dbi_offset = 0, dbi_range = ubo_size\<rparr>]]
      \<and> map (\<lambda>w. map_sum id length (write_entries w)) ws
          = [Inr (unat image_count), Inr 1, Inr 1]
      \<and> write_descriptors (vk_descriptors vk) ws = Inr (vk_descriptors vk')"
proof -
  let ?M = "unat (RENDER_MAX_IMAGES_SIZE L)"
  let ?infos = "map (\<lambda>i. Some (src_info src_samplers src_image_views i)) [0 ..< unat image_count]
                @ replicate (?M - unat image_count) None"
  from assms(1) have n: "unat image_count \<le> ?M" by (simp add: word_le_nat_alt)
  note loop = layer_src_image_info_loop [OF n assms(2) assms(3)]
  have e1: "write_entries
      \<lparr>wds_dstSet = descriptor_set, wds_dstBinding = src_binding, wds_dstArrayElement = 0,
       wds_descriptorCount = image_count,
       wds_descriptorType = VK_DESCRIPTOR_TYPE_COMBINED_IMAGE_SAMPLER,
       wds_pImageInfo = ?infos, wds_pBufferInfo = []\<rparr>
     = Inr (map (\<lambda>i. ImageDescriptor VK_DESCRIPTOR_TYPE_COMBINED_IMAGE_SAMPLER
                        (src_info src_samplers src_image_views i)) [0 ..< unat image_count])"
    by (simp add: write_entries_def read_infos_filled bind_err_def comp_def)
  have e2: "write_entries
      \<lparr>wds_dstSet = descriptor_set, wds_dstBinding = target_binding, wds_dstArrayElement = 0,
       wds_descriptorCount = 1, wds_descriptorType = VK_DESCRIPTOR_TYPE_STORAGE_IMAGE,
       wds_pImageInfo = [Some \<lparr>dii_sampler = VK_NULL_HANDLE, dii_imageView = target_image_view,
                               dii_imageLayout = VK_IMAGE_LAYOUT_GENERAL\<rparr>],
       wds_pBufferInfo = []\<rparr>
     = Inr [ImageDescriptor VK_DESCRIPTOR_TYPE_STORAGE_IMAGE
              \<lparr>dii_sampler = VK_NULL_HANDLE, dii_imageView = target_image_view,
               dii_imageLayout = VK_IMAGE_LAYOUT_GENERAL\<rparr>]"
    by (simp add: write_entries_def read_infos_def bind_err_def)
  have e3: "write_entries
      \<lparr>wds_dstSet = descriptor_set, wds_dstBinding = ubo_binding, wds_dstArrayElement = 0,
       wds_descriptorCount = 1, wds_descriptorType = VK_DESCRIPTOR_TYPE_UNIFORM_BUFFER,
       wds_pImageInfo = [],
       wds_pBufferInfo = [Some \<lparr>dbi_buffer = ubo_buffer, dbi_offset = 0,
                                 dbi_range = ubo_size\<rparr>]\<rparr>
     = Inr [BufferDescriptor VK_DESCRIPTOR_TYPE_UNIFORM_BUFFER
              \<lparr>dbi_buffer = ubo_buffer, dbi_offset = 0, dbi_range = ubo_size\<rparr>]"
    by (simp add: write_entries_def read_infos_def bind_err_def)
  show ?thesis
    unfolding update_compute_layer_descriptor_set_def loop
    by (simp add: bind_err_def Let_def vkUpdateDescriptorSets_def e1 e2 e3 new_calls_def)
qed

theorem layer_descriptor_update_exact_witness:
  "(2 :: u32) \<le> RENDER_MAX_IMAGES_SIZE L0
   \<and> unat (2 :: u32) \<le> length [300 :: handle, 301]
   \<and> unat (2 :: u32) \<le> length [302 :: handle, 303]
   \<and> (\<exists>vk' ws.
        update_compute_layer_descriptor_set L0 vk0 0 [300, 301] [302, 303] 2 2 201 3 400
          VK_WHOLE_SIZE 1 = Inr vk'
        \<and> new_calls vk0 vk' = [Call_vkUpdateDescriptorSets ws]
        \<and> map wds_dstBinding ws = [0, 2, 3]
        \<and> map (\<lambda>w. map_sum id length (write_entries w)) ws = [Inr 2, Inr 1, Inr 1])"
proof -
  have a: "(2 :: u32) \<le> RENDER_MAX_IMAGES_SIZE L0" by (simp add: L0_def)
  have b: "unat (2 :: u32) \<le> length [300 :: handle, 301]" by simp
  have c: "unat (2 :: u32) \<le> length [302 :: handle, 303]" by simp
  from layer_descriptor_update_exact [OF a b c, of vk0 0 2 201 3 400 VK_WHOLE_SIZE 1]
  obtain vk' ws where run: "update_compute_layer_descriptor_set L0 vk0 0 [300, 301] [302, 303]
          2 2 201 3 400 VK_WHOLE_SIZE 1 = Inr vk'"
    and calls: "new_calls vk0 vk' = [Call_vkUpdateDescriptorSets ws]"
    and shape: "map (\<lambda>w. (wds_dstSet w, wds_dstBinding w, wds_dstArrayElement w,
                   wds_descriptorCount w, wds_descriptorType w)) ws
          = [(1, 0, 0, 2, VK_DESCRIPTOR_TYPE_COMBINED_IMAGE_SAMPLER),
             (1, 2, 0, 1, VK_DESCRIPTOR_TYPE_STORAGE_IMAGE),
             (1, 3, 0, 1, VK_DESCRIPTOR_TYPE_UNIFORM_BUFFER)]"
    and counts: "map (\<lambda>w. map_sum id length (write_entries w)) ws
          = [Inr (unat (2 :: u32)), Inr 1, Inr 1]"
    by (elim exE conjE) (rule that, assumption+)
  from shape have "map wds_dstBinding ws = [0, 2, 3]"
    by (auto simp: map_eq_Cons_conv)
  with a b c run calls counts show ?thesis by auto
qed

section \<open>Initialisation and its failure\<close>








end
